theory Spec2Isabelle
  imports Complex_Main "HOL-Library.Sublist" "HOL-Library.Multiset"
begin

section \<open>Data model (models.py)\<close>

text \<open>
  Python \<open>float\<close> values (prices, hours, durations) are modelled as \<open>real\<close>; Python
  \<open>int\<close> as \<open>int\<close>; \<open>str\<close> as \<open>string\<close> (the UTF-8 bytes of the text). A dataclass is
  a record; only the fields the orchestration engine reads or writes are kept.
\<close>

record GpuType =
  gpu_id :: string
  display_name :: string
  secure_price :: real
  community_price :: real

record PodRuntime =
  uptime_seconds :: int

record Pod =
  pod_id :: string
  pod_name :: string
  image_name :: string
  desired_status :: string
  gpu_count :: int
  gpu_display_name :: string
  volume_in_gb :: int
  container_disk_in_gb :: int
  volume_mount_path :: string
  runtime :: "PodRuntime option"
  env :: "string list"
  ports_config :: string

datatype DeployStatus =
  PENDING | IN_PROGRESS | HEALTH_CHECK | DRAINING | ROLLING_BACK | COMPLETED | FAILED | ROLLED_BACK

text \<open>\<open>DeployStatus.X.value\<close>: the string stored in a record's status field.\<close>

fun status_value :: "DeployStatus \<Rightarrow> string" where
  "status_value PENDING = ''pending''"
| "status_value IN_PROGRESS = ''in_progress''"
| "status_value HEALTH_CHECK = ''health_check''"
| "status_value DRAINING = ''draining''"
| "status_value ROLLING_BACK = ''rolling_back''"
| "status_value COMPLETED = ''completed''"
| "status_value FAILED = ''failed''"
| "status_value ROLLED_BACK = ''rolled_back''"

record DeployRecord =
  deploy_id :: string
  timestamp :: string
  action :: string
  status :: string
  template_name :: string
  gpu_type :: string
  pod_count :: int
  pod_ids :: "string list"
  old_image :: string
  new_image :: string
  region :: string
  error :: string
  duration_seconds :: real
  rec_notes :: string

text \<open>The dataclass constructor with its defaults; the four positional fields are given.\<close>

definition new_record :: "string \<Rightarrow> string \<Rightarrow> string \<Rightarrow> string \<Rightarrow> DeployRecord" where
  "new_record did ts act stat =
     \<lparr>deploy_id = did, timestamp = ts, action = act, status = stat, template_name = '''',
      gpu_type = '''', pod_count = 0, pod_ids = [], old_image = '''', new_image = '''',
      region = '''', error = '''', duration_seconds = 0, rec_notes = ''''\<rparr>"

section \<open>Strings\<close>

definition newline :: char where
  "newline = CHR 0x0A"

text \<open>\<open>sep.join(xs)\<close>.\<close>

fun join :: "string \<Rightarrow> string list \<Rightarrow> string" where
  "join sep [] = []"
| "join sep [x] = x"
| "join sep (x # y # ys) = x @ sep @ join sep (y # ys)"

definition digit_char :: "nat \<Rightarrow> char" where
  "digit_char d = char_of (48 + d)"

text \<open>Decimal rendering of a number inside an f-string.\<close>

fun str_nat :: "nat \<Rightarrow> string" where
  "str_nat n = (if n < 10 then [digit_char n] else str_nat (n div 10) @ [digit_char (n mod 10)])"

declare str_nat.simps [simp del]

definition str_int :: "int \<Rightarrow> string" where
  "str_int i = (if i < 0 then CHR ''-'' # str_nat (nat (- i)) else str_nat (nat i))"

text \<open>
  \<open>s.lower()\<close> on the bytes of the text: the ASCII capitals are mapped, every other byte is
  kept. The only non-ASCII code points whose Python lower-casing produces an ASCII letter
  are U+0130 (giving \<open>i\<close> followed by U+0307) and U+212A (giving \<open>k\<close>); neither can take
  part in an occurrence of the needle searched for below, so the membership test agrees
  with Python's.
\<close>

definition lower_char :: "char \<Rightarrow> char" where
  "lower_char c =
     (if 65 \<le> (of_char c :: nat) \<and> (of_char c :: nat) \<le> 90 then char_of ((of_char c :: nat) + 32) else c)"

definition lower :: "string \<Rightarrow> string" where
  "lower s = map lower_char s"

text \<open>\<open>needle in hay\<close> for strings.\<close>

fun str_in :: "string \<Rightarrow> string \<Rightarrow> bool" where
  "str_in needle [] = (needle = [])"
| "str_in needle (c # cs) = (prefix needle (c # cs) \<or> str_in needle cs)"

section \<open>Cost estimation\<close>

text \<open>
  \<open>GpuType.lowest_price\<close>: \<open>prices = [p for p in [community, secure] if p > 0]\<close>,
  \<open>min(prices) if prices else 0.0\<close>.
\<close>

fun min_list :: "real list \<Rightarrow> real" where
  "min_list [] = 0"
| "min_list [x] = x"
| "min_list (x # y # ys) = min x (min_list (y # ys))"

definition lowest_price :: "GpuType \<Rightarrow> real" where
  "lowest_price g =
     (let prices = filter (\<lambda>p. p > 0) [community_price g, secure_price g]
      in if prices \<noteq> [] then min_list prices else 0)"

record cost_estimate =
  per_pod_hr :: real
  total_hr :: real
  total_period :: real

definition estimate_cost :: "GpuType \<Rightarrow> int \<Rightarrow> int \<Rightarrow> string \<Rightarrow> real \<Rightarrow> cost_estimate" where
  "estimate_cost g gpus pods cloud_type hours =
     (let price = (if cloud_type = ''COMMUNITY'' then community_price g
                   else if cloud_type = ''SECURE'' then secure_price g
                   else lowest_price g);
          per_pod = price * of_int gpus;
          total = per_pod * of_int pods
      in \<lparr>per_pod_hr = per_pod, total_hr = total, total_period = total * hours\<rparr>)"


section \<open>The Fleet API client and the engine state\<close>

text \<open>
  Exceptions as values. \<open>RunPodError\<close> stands for the client's exception class and its
  subclasses; \<open>OtherException\<close> for any other \<open>Exception\<close> (the client lets some through,
  such as the HTTP status error of \<open>resp.raise_for_status()\<close>). The argument is \<open>str(e)\<close>.
\<close>

datatype exn = RunPodError string | OtherException string

fun str_exn :: "exn \<Rightarrow> string" where
  "str_exn (RunPodError m) = m"
| "str_exn (OtherException m) = m"

text \<open>The keyword arguments of \<open>client.create_pod\<close> that the engine passes.\<close>

record create_request =
  req_name :: string
  req_image_name :: string
  req_gpu_type_id :: string
  req_gpu_count :: int
  req_cloud_type :: string
  req_volume_in_gb :: int
  req_container_disk_in_gb :: int
  req_ports :: string
  req_volume_mount_path :: string
  req_env :: "string list option"
  req_template_id :: "string option"

text \<open>
  Everything the engine does that is visible from outside, in the order it happens: the
  client calls and sleeps it awaits, and the callbacks it invokes.
\<close>

datatype event =
    CreatePod create_request
  | GetPod string
  | StopPod string
  | TerminatePod string
  | ResumePod string int
  | Sleep int
  | StateChange string string string
  | Progress int int
  | Countdown int

text \<open>
  The world outside the engine. The replies of the Fleet API are arbitrary functions of
  the number of the await at which the call is made; \<open>cancel_requested w t\<close> says whether
  some other task calls \<open>cancel_deploy()\<close> while the engine is suspended in await number
  \<open>t\<close>; \<open>completion_pick\<close> chooses which of the pending concurrent calls completes next.
  \<open>uuid_hex8\<close>, \<open>utc_now\<close>, \<open>isoformat\<close> and \<open>json_dumps\<close> stand for the library calls
  \<open>uuid.uuid4().hex[:8]\<close>, \<open>datetime.now(timezone.utc)\<close>, \<open>datetime.isoformat\<close> and
  \<open>json.dumps\<close> of the record's dictionary. The two flags say whether opening the history
  file for reading or for writing succeeds (otherwise \<open>OSError\<close>).
\<close>

record world =
  create_pod_reply :: "nat \<Rightarrow> create_request \<Rightarrow> exn + Pod"
  get_pod_reply :: "nat \<Rightarrow> string \<Rightarrow> exn + Pod"
  stop_pod_reply :: "nat \<Rightarrow> string \<Rightarrow> exn option"
  terminate_pod_reply :: "nat \<Rightarrow> string \<Rightarrow> exn option"
  resume_pod_reply :: "nat \<Rightarrow> string \<Rightarrow> int \<Rightarrow> exn option"
  cancel_requested :: "nat \<Rightarrow> bool"
  completion_pick :: "nat \<Rightarrow> nat"
  uuid_hex8 :: "nat \<Rightarrow> string"
  utc_now :: "nat \<Rightarrow> real"
  isoformat :: "real \<Rightarrow> string"
  json_dumps :: "DeployRecord \<Rightarrow> string"
  history_readable :: bool
  history_writable :: bool

text \<open>
  The \<open>PodManager\<close> object (\<open>_active_deploy\<close>, \<open>_deploy_cancelled\<close>), the text of the file
  at \<open>history_path\<close> (\<open>None\<close>: the file does not exist), the number of awaits so far and the
  trace of events. The text of the file is what a text-mode read returns and a text-mode
  write stores.
\<close>

record state =
  history_file :: "string option"
  active_deploy :: "DeployRecord option"
  deploy_cancelled :: bool
  awaits :: nat
  trace :: "event list"

text \<open>
  A callback that may be \<open>None\<close>: \<open>if cb: cb(...)\<close>. A callback that is given is recorded
  as an event and is taken to return normally.
\<close>

definition emit :: "bool \<Rightarrow> event \<Rightarrow> state \<Rightarrow> state" where
  "emit cb e st = (if cb then st\<lparr>trace := trace st @ [e]\<rparr> else st)"

text \<open>An await: the event is recorded, and other tasks run until the engine resumes.\<close>

definition suspend :: "world \<Rightarrow> event \<Rightarrow> state \<Rightarrow> state" where
  "suspend w e st =
     st\<lparr>trace := trace st @ [e],
        deploy_cancelled := (deploy_cancelled st \<or> cancel_requested w (awaits st)),
        awaits := Suc (awaits st)\<rparr>"

definition create_pod :: "world \<Rightarrow> create_request \<Rightarrow> state \<Rightarrow> (exn + Pod) \<times> state" where
  "create_pod w req st = (create_pod_reply w (awaits st) req, suspend w (CreatePod req) st)"

definition get_pod :: "world \<Rightarrow> string \<Rightarrow> state \<Rightarrow> (exn + Pod) \<times> state" where
  "get_pod w pid st = (get_pod_reply w (awaits st) pid, suspend w (GetPod pid) st)"

definition stop_pod :: "world \<Rightarrow> string \<Rightarrow> state \<Rightarrow> exn option \<times> state" where
  "stop_pod w pid st = (stop_pod_reply w (awaits st) pid, suspend w (StopPod pid) st)"

definition terminate_pod :: "world \<Rightarrow> string \<Rightarrow> state \<Rightarrow> exn option \<times> state" where
  "terminate_pod w pid st = (terminate_pod_reply w (awaits st) pid, suspend w (TerminatePod pid) st)"

definition resume_pod :: "world \<Rightarrow> string \<Rightarrow> int \<Rightarrow> state \<Rightarrow> exn option \<times> state" where
  "resume_pod w pid n st = (resume_pod_reply w (awaits st) pid n, suspend w (ResumePod pid n) st)"

definition sleep :: "world \<Rightarrow> int \<Rightarrow> state \<Rightarrow> state" where
  "sleep w secs st = suspend w (Sleep secs) st"

text \<open>\<open>try: ... except RunPodError: pass\<close>: what is left is the exception that propagates.\<close>

fun except_RunPodError :: "exn option \<Rightarrow> exn option" where
  "except_RunPodError None = None"
| "except_RunPodError (Some (RunPodError m)) = None"
| "except_RunPodError (Some (OtherException m)) = Some (OtherException m)"

section \<open>History journal\<close>

definition record_deploy :: "world \<Rightarrow> DeployRecord \<Rightarrow> state \<Rightarrow> state" where
  "record_deploy w r st =
     (if history_writable w
      then st\<lparr>history_file :=
                Some ((case history_file st of None \<Rightarrow> [] | Some c \<Rightarrow> c) @ json_dumps w r @ [newline])\<rparr>
      else st)"

text \<open>\<open>f.readlines()\<close>: every line keeps its newline; the last one may lack it.\<close>

fun readlines :: "string \<Rightarrow> string list" where
  "readlines [] = []"
| "readlines (c # cs) =
     (if c = newline then [c] # readlines cs
      else (case readlines cs of [] \<Rightarrow> [[c]] | l # ls \<Rightarrow> (c # l) # ls))"

text \<open>The slice \<open>xs[start:]\<close> of Python, for any integer \<open>start\<close>.\<close>

definition slice_from :: "int \<Rightarrow> 'a list \<Rightarrow> 'a list" where
  "slice_from start xs =
     (let n = int (length xs);
          s = (if start < 0 then max (start + n) 0 else min start n)
      in drop (nat s) xs)"

definition truncate_history :: "world \<Rightarrow> int \<Rightarrow> state \<Rightarrow> state" where
  "truncate_history w keep st =
     (case history_file st of
        None \<Rightarrow> st
      | Some content \<Rightarrow>
          if \<not> history_readable w then st
          else let lines = readlines content
               in if int (length lines) > keep * 2
                  then (if history_writable w
                        then st\<lparr>history_file := Some (concat (slice_from (- keep) lines))\<rparr>
                        else st)
                  else st)"


section \<open>Scale up\<close>

record scale_up_args =
  su_count :: int
  su_name_prefix :: string
  su_image_name :: string
  su_gpu_type_id :: string
  su_gpu_count :: int
  su_cloud_type :: string
  su_volume_in_gb :: int
  su_container_disk_in_gb :: int
  su_ports :: string
  su_volume_mount_path :: string
  su_env :: "string list option"
  su_template_id :: "string option"
  su_on_progress :: bool

definition scale_up_request :: "scale_up_args \<Rightarrow> string \<Rightarrow> nat \<Rightarrow> create_request" where
  "scale_up_request a did i =
     \<lparr>req_name = su_name_prefix a @ ''-'' @ did @ ''-'' @ str_nat i,
      req_image_name = su_image_name a,
      req_gpu_type_id = su_gpu_type_id a,
      req_gpu_count = su_gpu_count a,
      req_cloud_type = su_cloud_type a,
      req_volume_in_gb = su_volume_in_gb a,
      req_container_disk_in_gb = su_container_disk_in_gb a,
      req_ports = su_ports a,
      req_volume_mount_path = su_volume_mount_path a,
      req_env = su_env a,
      req_template_id = su_template_id a\<rparr>"

text \<open>\<open>"no longer any instances available" in str(e).lower()\<close>.\<close>

definition gpus_ran_out :: "string \<Rightarrow> bool" where
  "gpus_ran_out msg = str_in ''no longer any instances available'' (lower msg)"

text \<open>The em dash U+2014 of the note, in UTF-8.\<close>

definition em_dash :: string where
  "em_dash = [CHR 0xE2, CHR 0x80, CHR 0x94]"

definition pod_error :: "nat \<Rightarrow> exn \<Rightarrow> string" where
  "pod_error i e = ''Pod '' @ str_nat (i + 1) @ '': '' @ str_exn e"

definition stopped_note :: "nat \<Rightarrow> int \<Rightarrow> string" where
  "stopped_note k n =
     ''Stopped after '' @ str_nat k @ ''/'' @ str_int n @ '' '' @ em_dash @ '' no GPUs available''"

text \<open>
  The \<open>for i in range(count)\<close> loop with its \<open>break\<close>, over the indices still to come;
  \<open>created\<close> and \<open>errors\<close> are the lists \<open>created_pods\<close> and \<open>errors\<close>.
\<close>

fun scale_up_loop ::
  "world \<Rightarrow> scale_up_args \<Rightarrow> string \<Rightarrow> nat list \<Rightarrow> Pod list \<Rightarrow> string list \<Rightarrow> state
     \<Rightarrow> Pod list \<times> string list \<times> state" where
  "scale_up_loop w a did [] created errors st = (created, errors, st)"
| "scale_up_loop w a did (i # rest) created errors st =
     (case create_pod w (scale_up_request a did i) st of
        (Inr pod, st1) \<Rightarrow>
          scale_up_loop w a did rest (created @ [pod]) errors
            (emit (su_on_progress a) (Progress (int i + 1) (su_count a)) st1)
      | (Inl e, st1) \<Rightarrow>
          (let errors1 = errors @ [pod_error i e]
           in if gpus_ran_out (str_exn e)
              then (created, errors1 @ [stopped_note (length created) (su_count a)], st1)
              else scale_up_loop w a did rest created errors1 st1))"

definition scale_up :: "world \<Rightarrow> scale_up_args \<Rightarrow> state \<Rightarrow> DeployRecord \<times> state" where
  "scale_up w a st =
     (let did = uuid_hex8 w (awaits st);
          start = utc_now w (awaits st);
          rec0 = (new_record did (isoformat w start) ''scale_up'' (status_value IN_PROGRESS))
                   \<lparr>gpu_type := su_gpu_type_id a, pod_count := su_count a,
                    new_image := su_image_name a\<rparr>
      in case scale_up_loop w a did [0 ..< nat (su_count a)] [] [] st of
           (created, errors, st1) \<Rightarrow>
             (let rec1 = rec0\<lparr>pod_ids := map pod_id created,
                             pod_count := int (length created),
                             duration_seconds := utc_now w (awaits st1) - start\<rparr>;
                  rec2 = (if errors \<noteq> []
                          then rec1\<lparr>error := join ''; '' errors,
                                    status := (if created = [] then status_value FAILED
                                               else status_value COMPLETED)\<rparr>
                          else rec1\<lparr>status := status_value COMPLETED\<rparr>)
              in (rec2, record_deploy w rec2 st1)))"

section \<open>Scale down\<close>

record scale_down_args =
  sd_pod_ids :: "string list"
  sd_action :: string
  sd_on_progress :: bool

text \<open>
  \<open>asyncio.gather\<close> starts the tasks in the order of the list; each runs up to its client
  call and is suspended there. The replies, in the order of the list, are what \<open>gather\<close>
  returns (\<open>None\<close>: the task returned its pod id, \<open>Some e\<close>: it returned the exception).
\<close>

fun start_tasks :: "world \<Rightarrow> string \<Rightarrow> string list \<Rightarrow> state \<Rightarrow> exn option list \<times> state" where
  "start_tasks w act [] st = ([], st)"
| "start_tasks w act (pid # pids) st =
     (case (if act = ''terminate'' then terminate_pod w pid st else stop_pod w pid st) of
        (r, st1) \<Rightarrow> (case start_tasks w act pids st1 of (rs, st2) \<Rightarrow> (r # rs, st2)))"

text \<open>
  The order in which the suspended calls complete: at step \<open>j\<close> the world picks one of the
  pending tasks.
\<close>

function completion_order :: "(nat \<Rightarrow> nat) \<Rightarrow> nat \<Rightarrow> nat list \<Rightarrow> nat list" where
  "completion_order pick j pending =
     (if pending = [] then []
      else let k = pick j mod length pending
           in pending ! k # completion_order pick (Suc j) (take k pending @ drop (Suc k) pending))"
  by pat_completeness auto
termination
proof (relation "measure (\<lambda>(pick, j, pending). length pending)", goal_cases)
  case 1
  show ?case by simp
next
  case (2 pick j pending k)
  then have "k < length pending"
    by simp
  then have "length (take k pending @ drop (Suc k) pending) < length pending"
    by simp
  then show ?case
    by simp
qed

declare completion_order.simps [simp del]

text \<open>A task resumes when its call completes: after a success it reports progress.\<close>

fun resume_tasks :: "bool \<Rightarrow> nat \<Rightarrow> exn option list \<Rightarrow> nat list \<Rightarrow> state \<Rightarrow> state" where
  "resume_tasks cb n results [] st = st"
| "resume_tasks cb n results (i # rest) st =
     resume_tasks cb n results rest
       (case results ! i of
          None \<Rightarrow> emit cb (Progress (int i + 1) (int n)) st
        | Some e \<Rightarrow> st)"

definition scale_down :: "world \<Rightarrow> scale_down_args \<Rightarrow> state \<Rightarrow> DeployRecord \<times> state" where
  "scale_down w a st =
     (let did = uuid_hex8 w (awaits st);
          start = utc_now w (awaits st);
          n = length (sd_pod_ids a);
          rec0 = (new_record did (isoformat w start) ''scale_down'' (status_value IN_PROGRESS))
                   \<lparr>pod_count := int n, pod_ids := sd_pod_ids a,
                    rec_notes := ''action='' @ sd_action a\<rparr>
      in case start_tasks w (sd_action a) (sd_pod_ids a) st of
           (results, st1) \<Rightarrow>
             (let st2 = resume_tasks (sd_on_progress a) n results
                          (completion_order (completion_pick w) 0 [0 ..< n]) st1;
                  errors = map str_exn (List.map_filter id results);
                  rec1 = rec0\<lparr>duration_seconds := utc_now w (awaits st2) - start\<rparr>;
                  rec2 = (if errors \<noteq> []
                          then rec1\<lparr>error := join ''; '' errors, status := status_value FAILED\<rparr>
                          else rec1\<lparr>status := status_value COMPLETED\<rparr>)
              in (rec2, record_deploy w rec2 st2)))"

section \<open>Rolling deploy\<close>

record deploy_args =
  target_pods :: "Pod list"
  da_new_image :: string
  grace_period_minutes :: int
  health_check_timeout :: int
  on_state_change :: bool
  on_progress :: bool
  on_countdown :: bool

definition cancel_deploy :: "state \<Rightarrow> state" where
  "cancel_deploy st = st\<lparr>deploy_cancelled := True\<rparr>"

text \<open>The test of the health check on the pod that \<open>get_pod\<close> returned.\<close>

definition is_healthy :: "Pod \<Rightarrow> bool" where
  "is_healthy pod =
     (desired_status pod = ''RUNNING'' \<and>
      (case runtime pod of None \<Rightarrow> False | Some r \<Rightarrow> uptime_seconds r > 0))"

text \<open>
  \<open>_wait_for_healthy\<close>: the \<open>while elapsed < timeout\<close> loop, from a given \<open>elapsed\<close>. The
  result is \<open>Inr\<close> of the returned boolean, or \<open>Inl\<close> of the exception that \<open>get_pod\<close>
  raised and \<open>except RunPodError\<close> did not catch.
\<close>

function wait_loop :: "world \<Rightarrow> string \<Rightarrow> int \<Rightarrow> int \<Rightarrow> state \<Rightarrow> (exn + bool) \<times> state" where
  "wait_loop w pid timeout elapsed st =
     (if elapsed < timeout then
        (if deploy_cancelled st then (Inr False, st)
         else (case get_pod w pid st of
                 (Inr pod, st1) \<Rightarrow>
                   if is_healthy pod then (Inr True, st1)
                   else wait_loop w pid timeout (elapsed + 5) (sleep w 5 st1)
               | (Inl (RunPodError m), st1) \<Rightarrow>
                   wait_loop w pid timeout (elapsed + 5) (sleep w 5 st1)
               | (Inl (OtherException m), st1) \<Rightarrow> (Inl (OtherException m), st1)))
      else (Inr False, st))"
  by pat_completeness auto
termination
  by (relation "measure (\<lambda>(w, pid, timeout, elapsed, st). nat (timeout - elapsed))") auto

declare wait_loop.simps [simp del]

definition wait_for_healthy :: "world \<Rightarrow> string \<Rightarrow> int \<Rightarrow> state \<Rightarrow> (exn + bool) \<times> state" where
  "wait_for_healthy w pid timeout st = wait_loop w pid timeout 0 st"

text \<open>
  \<open>_rollback_deploy\<close>: the loop over the pairs; the result is the exception that escapes
  from it, if any.
\<close>

fun rollback_pairs :: "world \<Rightarrow> (Pod \<times> Pod) list \<Rightarrow> state \<Rightarrow> exn option \<times> state" where
  "rollback_pairs w [] st = (None, st)"
| "rollback_pairs w ((old_pod, new_pod) # rest) st =
     (case terminate_pod w (pod_id new_pod) st of
        (r1, st1) \<Rightarrow>
          (case except_RunPodError r1 of
             Some e \<Rightarrow> (Some e, st1)
           | None \<Rightarrow>
               (case resume_pod w (pod_id old_pod) (gpu_count old_pod) st1 of
                  (r2, st2) \<Rightarrow>
                    (case except_RunPodError r2 of
                       Some e \<Rightarrow> (Some e, st2)
                     | None \<Rightarrow> rollback_pairs w rest st2))))"

definition rollback_deploy ::
  "world \<Rightarrow> (Pod \<times> Pod) list \<Rightarrow> DeployRecord \<Rightarrow> state \<Rightarrow> exn option \<times> DeployRecord \<times> state" where
  "rollback_deploy w pairs r st =
     (case rollback_pairs w pairs st of
        (x, st1) \<Rightarrow> (x, r\<lparr>status := status_value ROLLING_BACK\<rparr>, st1))"

text \<open>
  How one iteration of the \<open>for\<close> loop ends: it falls through to the next pod, it leaves
  the loop by \<open>break\<close>, or an exception propagates to the handler around the loop. The
  pairs are \<open>completed_pairs\<close>, the record is \<open>record\<close>.
\<close>

datatype step =
    is_Next: Next (next_pairs: "(Pod \<times> Pod) list") (next_record: DeployRecord) (next_state: state)
  | Stop DeployRecord state
  | Throw exn "(Pod \<times> Pod) list" DeployRecord state

text \<open>The common tail of the abort paths: roll back, set status and error, \<open>break\<close>.\<close>

definition rollback_and_break ::
  "world \<Rightarrow> (Pod \<times> Pod) list \<Rightarrow> DeployRecord \<Rightarrow> DeployStatus \<Rightarrow> string \<Rightarrow> state \<Rightarrow> step" where
  "rollback_and_break w pairs r stat err st =
     (case rollback_deploy w pairs r st of
        (Some e, r1, st1) \<Rightarrow> Throw e pairs r1 st1
      | (None, r1, st1) \<Rightarrow> Stop (r1\<lparr>status := status_value stat, error := err\<rparr>) st1)"

text \<open>\<open>try: await self.client.terminate_pod(..) except RunPodError: pass\<close>, then the abort.\<close>

definition terminate_and_abort ::
  "world \<Rightarrow> string \<Rightarrow> (Pod \<times> Pod) list \<Rightarrow> DeployRecord \<Rightarrow> DeployStatus \<Rightarrow> string \<Rightarrow> state \<Rightarrow> step" where
  "terminate_and_abort w pid pairs r stat err st =
     (case terminate_pod w pid st of
        (x, st1) \<Rightarrow>
          (case except_RunPodError x of
             Some e \<Rightarrow> Throw e pairs r st1
           | None \<Rightarrow> rollback_and_break w pairs r stat err st1))"

text \<open>The countdown of the grace period: \<open>while remaining > 0 and not cancelled\<close>.\<close>

function grace_loop :: "world \<Rightarrow> bool \<Rightarrow> int \<Rightarrow> state \<Rightarrow> state" where
  "grace_loop w cb remaining st =
     (if remaining > 0 \<and> \<not> deploy_cancelled st
      then grace_loop w cb (remaining - 1)
             (sleep w (min 1 remaining) (emit cb (Countdown remaining) st))
      else st)"
  by pat_completeness auto
termination
  by (relation "measure (\<lambda>(w, cb, remaining, st). nat remaining)") auto

declare grace_loop.simps [simp del]

definition replacement_request :: "deploy_args \<Rightarrow> string \<Rightarrow> Pod \<Rightarrow> create_request" where
  "replacement_request a did old_pod =
     \<lparr>req_name = pod_name old_pod @ ''-v2-'' @ did,
      req_image_name = da_new_image a,
      req_gpu_type_id = gpu_display_name old_pod,
      req_gpu_count = gpu_count old_pod,
      req_cloud_type = ''ALL'',
      req_volume_in_gb = volume_in_gb old_pod,
      req_container_disk_in_gb = container_disk_in_gb old_pod,
      req_ports = (if ports_config old_pod \<noteq> [] then ports_config old_pod else ''8888/http''),
      req_volume_mount_path = volume_mount_path old_pod,
      req_env = Some (env old_pod),
      req_template_id = None\<rparr>"

text \<open>Step 1 of an iteration: the state callback and the creation of the replacement.\<close>

definition create_replacement ::
  "world \<Rightarrow> deploy_args \<Rightarrow> string \<Rightarrow> Pod \<Rightarrow> state \<Rightarrow> (exn + Pod) \<times> state" where
  "create_replacement w a did old_pod st =
     create_pod w (replacement_request a did old_pod)
       (emit (on_state_change a) (StateChange (pod_id old_pod) ''CREATE_NEW'' []) st)"

text \<open>Step 2: the state callback and the health check of the replacement.\<close>

definition health_check ::
  "world \<Rightarrow> deploy_args \<Rightarrow> Pod \<Rightarrow> Pod \<Rightarrow> state \<Rightarrow> (exn + bool) \<times> state" where
  "health_check w a old_pod new_pod st =
     wait_for_healthy w (pod_id new_pod) (health_check_timeout a)
       (emit (on_state_change a) (StateChange (pod_id old_pod) ''HEALTH_CHECK'' (pod_id new_pod)) st)"

text \<open>Step 3: the state callback, the countdown of the grace period, \<open>on_countdown(0)\<close>.\<close>

definition drain :: "world \<Rightarrow> deploy_args \<Rightarrow> Pod \<Rightarrow> Pod \<Rightarrow> state \<Rightarrow> state" where
  "drain w a old_pod new_pod st =
     emit (on_countdown a) (Countdown 0)
       (grace_loop w (on_countdown a) (grace_period_minutes a * 60)
          (emit (on_state_change a) (StateChange (pod_id old_pod) ''DRAINING'' (pod_id new_pod)) st))"

text \<open>Step 4 and the end of the iteration: the old pod is terminated, the pair is recorded.\<close>

definition switch_over ::
  "world \<Rightarrow> deploy_args \<Rightarrow> Pod \<Rightarrow> Pod \<Rightarrow> (Pod \<times> Pod) list \<Rightarrow> DeployRecord \<Rightarrow> state \<Rightarrow> step" where
  "switch_over w a old_pod new_pod pairs r st =
     (case terminate_pod w (pod_id old_pod)
             (emit (on_state_change a)
                (StateChange (pod_id old_pod) ''TERMINATE_OLD'' (pod_id new_pod)) st) of
        (x, st1) \<Rightarrow>
          (case except_RunPodError x of
             Some e \<Rightarrow> Throw e pairs r st1
           | None \<Rightarrow>
               Next (pairs @ [(old_pod, new_pod)]) r
                 (emit (on_progress a)
                    (Progress (int (length (pairs @ [(old_pod, new_pod)])))
                       (int (length (target_pods a))))
                    (emit (on_state_change a)
                       (StateChange (pod_id old_pod) ''COMPLETED'' (pod_id new_pod)) st1))))"

text \<open>The body of the \<open>for\<close> loop for one old pod.\<close>

definition deploy_one ::
  "world \<Rightarrow> deploy_args \<Rightarrow> string \<Rightarrow> Pod \<Rightarrow> (Pod \<times> Pod) list \<Rightarrow> DeployRecord \<Rightarrow> state \<Rightarrow> step" where
  "deploy_one w a did old_pod pairs r st =
     (if deploy_cancelled st
      then rollback_and_break w pairs r ROLLED_BACK ''Cancelled by user'' st
      else
        (case create_replacement w a did old_pod st of
           (Inl e, st1) \<Rightarrow>
             rollback_and_break w pairs r FAILED
               (''Failed to create replacement for '' @ pod_id old_pod @ '': '' @ str_exn e)
               (emit (on_state_change a) (StateChange (pod_id old_pod) ''FAILED'' (str_exn e)) st1)
         | (Inr new_pod, st1) \<Rightarrow>
             (case health_check w a old_pod new_pod st1 of
                (Inl e, st2) \<Rightarrow> Throw e pairs r st2
              | (Inr False, st2) \<Rightarrow>
                  terminate_and_abort w (pod_id new_pod) pairs r FAILED
                    (''New pod '' @ pod_id new_pod @ '' failed health check'')
                    (emit (on_state_change a)
                       (StateChange (pod_id old_pod) ''ROLLING_BACK'' (pod_id new_pod)) st2)
              | (Inr True, st2) \<Rightarrow>
                  (if deploy_cancelled (drain w a old_pod new_pod st2)
                   then terminate_and_abort w (pod_id new_pod) pairs r ROLLED_BACK
                          ''Cancelled by user during grace period'' (drain w a old_pod new_pod st2)
                   else switch_over w a old_pod new_pod pairs r (drain w a old_pod new_pod st2)))))"

text \<open>The \<open>for\<close> loop: it stops at the first iteration that does not fall through.\<close>

fun deploy_steps ::
  "world \<Rightarrow> deploy_args \<Rightarrow> string \<Rightarrow> Pod list \<Rightarrow> (Pod \<times> Pod) list \<Rightarrow> DeployRecord \<Rightarrow> state \<Rightarrow> step" where
  "deploy_steps w a did [] pairs r st = Next pairs r st"
| "deploy_steps w a did (old_pod # rest) pairs r st =
     (case deploy_one w a did old_pod pairs r st of
        Next pairs1 r1 st1 \<Rightarrow> deploy_steps w a did rest pairs1 r1 st1
      | Stop r1 st1 \<Rightarrow> Stop r1 st1
      | Throw e pairs1 r1 st1 \<Rightarrow> Throw e pairs1 r1 st1)"

text \<open>The record and the state with which the loop is entered.\<close>

definition deploy_record :: "world \<Rightarrow> deploy_args \<Rightarrow> state \<Rightarrow> DeployRecord" where
  "deploy_record w a st =
     (new_record (uuid_hex8 w (awaits st)) (isoformat w (utc_now w (awaits st)))
        ''rolling_deploy'' (status_value IN_PROGRESS))
       \<lparr>old_image := (case target_pods a of [] \<Rightarrow> [] | p # ps \<Rightarrow> image_name p),
        new_image := da_new_image a,
        pod_count := int (length (target_pods a))\<rparr>"

definition deploy_start :: "world \<Rightarrow> deploy_args \<Rightarrow> state \<Rightarrow> state" where
  "deploy_start w a st =
     st\<lparr>deploy_cancelled := False, active_deploy := Some (deploy_record w a st)\<rparr>"

text \<open>The statements after the \<open>try\<close>: duration, journal, the active slot is cleared.\<close>

definition deploy_finish :: "world \<Rightarrow> real \<Rightarrow> DeployRecord \<Rightarrow> state \<Rightarrow> (exn + DeployRecord) \<times> state" where
  "deploy_finish w start r st =
     (let r1 = r\<lparr>duration_seconds := utc_now w (awaits st) - start\<rparr>
      in (Inr r1, (record_deploy w r1 st)\<lparr>active_deploy := None\<rparr>))"

text \<open>
  \<open>rolling_deploy\<close>: \<open>Inr\<close> of the returned record, or \<open>Inl\<close> of the exception that escapes
  from the rollback inside the \<open>except Exception\<close> handler; then nothing is journalled and
  the active slot still holds the record object. During the loop the slot and the local
  variable are one object; the model keeps the record in the local variable and writes
  the slot where it can be observed afterwards.
\<close>

definition rolling_deploy :: "world \<Rightarrow> deploy_args \<Rightarrow> state \<Rightarrow> (exn + DeployRecord) \<times> state" where
  "rolling_deploy w a st =
     (let start = utc_now w (awaits st)
      in case deploy_steps w a (uuid_hex8 w (awaits st)) (target_pods a) []
                (deploy_record w a st) (deploy_start w a st) of
           Next pairs r st1 \<Rightarrow>
             deploy_finish w start
               (r\<lparr>status := status_value COMPLETED,
                  pod_ids := map (\<lambda>(old_pod, new_pod). pod_id new_pod) pairs\<rparr>) st1
         | Stop r st1 \<Rightarrow> deploy_finish w start r st1
         | Throw e pairs r st1 \<Rightarrow>
             (case rollback_deploy w pairs (r\<lparr>status := status_value FAILED, error := str_exn e\<rparr>) st1 of
                (Some e1, r1, st2) \<Rightarrow> (Inl e1, st2\<lparr>active_deploy := Some r1\<rparr>)
              | (None, r1, st2) \<Rightarrow> deploy_finish w start r1 st2))"

section \<open>Observations used in the statements\<close>

text \<open>
  What the world answers to the creation the scale-up loop makes at index \<open>i\<close>, when the
  loop is entered at await number \<open>t0\<close>: every iteration awaits exactly once.
\<close>

definition attempt :: "world \<Rightarrow> scale_up_args \<Rightarrow> string \<Rightarrow> nat \<Rightarrow> nat \<Rightarrow> exn + Pod" where
  "attempt w a did t0 i = create_pod_reply w (t0 + i) (scale_up_request a did i)"

definition capacity_failure :: "exn + Pod \<Rightarrow> bool" where
  "capacity_failure x = (case x of Inl e \<Rightarrow> gpus_ran_out (str_exn e) | Inr p \<Rightarrow> False)"

text \<open>The elements of a list up to and including the first one that satisfies \<open>P\<close>.\<close>

fun upto_first :: "('a \<Rightarrow> bool) \<Rightarrow> 'a list \<Rightarrow> 'a list" where
  "upto_first P [] = []"
| "upto_first P (x # xs) = x # (if P x then [] else upto_first P xs)"

text \<open>The pods and the exceptions among a list of replies, and the events of one iteration.\<close>

fun pods_of :: "(exn + Pod) list \<Rightarrow> Pod list" where
  "pods_of [] = []"
| "pods_of (Inr p # xs) = p # pods_of xs"
| "pods_of (Inl e # xs) = pods_of xs"

definition attempt_error :: "world \<Rightarrow> scale_up_args \<Rightarrow> string \<Rightarrow> nat \<Rightarrow> nat \<Rightarrow> string list" where
  "attempt_error w a did t0 i =
     (case attempt w a did t0 i of Inl e \<Rightarrow> [pod_error i e] | Inr p \<Rightarrow> [])"

definition attempt_events :: "world \<Rightarrow> scale_up_args \<Rightarrow> string \<Rightarrow> nat \<Rightarrow> nat \<Rightarrow> event list" where
  "attempt_events w a did t0 i =
     CreatePod (scale_up_request a did i) #
     (case attempt w a did t0 i of
        Inl e \<Rightarrow> []
      | Inr p \<Rightarrow> if su_on_progress a then [Progress (int i + 1) (su_count a)] else [])"

text \<open>
  For a whole \<open>scale_up\<close> call from state \<open>st\<close>: the indices at which a creation is
  attempted (all of \<open>range(count)\<close>, or those up to the first capacity failure), the
  replies to these creations, and the error texts they leave.
\<close>

definition attempted :: "world \<Rightarrow> scale_up_args \<Rightarrow> state \<Rightarrow> nat list" where
  "attempted w a st =
     upto_first (\<lambda>i. capacity_failure (attempt w a (uuid_hex8 w (awaits st)) (awaits st) i))
       [0 ..< nat (su_count a)]"

definition replies :: "world \<Rightarrow> scale_up_args \<Rightarrow> state \<Rightarrow> (exn + Pod) list" where
  "replies w a st = map (attempt w a (uuid_hex8 w (awaits st)) (awaits st)) (attempted w a st)"

definition reply_errors :: "world \<Rightarrow> scale_up_args \<Rightarrow> state \<Rightarrow> string list" where
  "reply_errors w a st =
     concat (map (attempt_error w a (uuid_hex8 w (awaits st)) (awaits st)) (attempted w a st)) @
     (if list_ex capacity_failure (replies w a st)
      then [stopped_note (length (pods_of (replies w a st))) (su_count a)] else [])"

text \<open>
  For \<open>scale_down\<close>: the call a task makes for a pod id, the reply of the world to the call
  made at await number \<open>t\<close>, the replies to all the tasks of a call from state \<open>st\<close> in the
  order of the pod ids, and the progress callback of task \<open>i\<close>.
\<close>

definition task_call :: "string \<Rightarrow> string \<Rightarrow> event" where
  "task_call act pid = (if act = ''terminate'' then TerminatePod pid else StopPod pid)"

definition task_reply :: "world \<Rightarrow> string \<Rightarrow> nat \<Rightarrow> string \<Rightarrow> exn option" where
  "task_reply w act t pid =
     (if act = ''terminate'' then terminate_pod_reply w t pid else stop_pod_reply w t pid)"

definition task_replies :: "world \<Rightarrow> scale_down_args \<Rightarrow> state \<Rightarrow> exn option list" where
  "task_replies w a st =
     map (\<lambda>(t, pid). task_reply w (sd_action a) t pid) (List.enumerate (awaits st) (sd_pod_ids a))"

definition task_progress :: "world \<Rightarrow> scale_down_args \<Rightarrow> state \<Rightarrow> nat \<Rightarrow> event list" where
  "task_progress w a st i =
     (case task_replies w a st ! i of
        None \<Rightarrow> if sd_on_progress a then [Progress (int i + 1) (int (length (sd_pod_ids a)))] else []
      | Some e \<Rightarrow> [])"

text \<open>
  For the rolling deploy: the calls by which a list of completed pairs is rolled back, the
  new pod terminated and the old pod resumed with its GPU count, pair after pair.
\<close>

definition rollback_calls :: "(Pod \<times> Pod) list \<Rightarrow> event list" where
  "rollback_calls pairs =
     concat (map (\<lambda>(old_pod, new_pod).
                    [TerminatePod (pod_id new_pod), ResumePod (pod_id old_pod) (gpu_count old_pod)])
               pairs)"

text \<open>The client calls of a trace: the events that are neither a sleep nor a callback.\<close>

fun is_client_call :: "event \<Rightarrow> bool" where
  "is_client_call (CreatePod req) = True"
| "is_client_call (GetPod pid) = True"
| "is_client_call (StopPod pid) = True"
| "is_client_call (TerminatePod pid) = True"
| "is_client_call (ResumePod pid n) = True"
| "is_client_call (Sleep secs) = False"
| "is_client_call (StateChange pid s d) = False"
| "is_client_call (Progress k n) = False"
| "is_client_call (Countdown secs) = False"

definition client_calls :: "event list \<Rightarrow> event list" where
  "client_calls tr = filter is_client_call tr"

text \<open>The events of \<open>n\<close> rounds of the health check: a poll and a sleep of 5 seconds each.\<close>

definition polls :: "string \<Rightarrow> nat \<Rightarrow> event list" where
  "polls pid n = concat (replicate n [GetPod pid, Sleep 5])"

section \<open>Example data\<close>

text \<open>
  A concrete pod, world and state, used to instantiate the theorems below. In
  \<open>example_world\<close> every call succeeds, nobody cancels, and the pod a call returns has the
  requested name (or id) as its id.
\<close>

definition example_pod :: "string \<Rightarrow> Pod" where
  "example_pod i =
     \<lparr>pod_id = i, pod_name = ''worker-'' @ i, image_name = ''img:v1'',
      desired_status = ''RUNNING'', gpu_count = 1, gpu_display_name = ''A100'',
      volume_in_gb = 20, container_disk_in_gb = 20, volume_mount_path = ''/workspace'',
      runtime = Some \<lparr>uptime_seconds = 60\<rparr>, env = [], ports_config = []\<rparr>"

definition example_world :: world where
  "example_world =
     \<lparr>create_pod_reply = (\<lambda>t req. Inr (example_pod (req_name req))),
      get_pod_reply = (\<lambda>t pid. Inr (example_pod pid)),
      stop_pod_reply = (\<lambda>t pid. None),
      terminate_pod_reply = (\<lambda>t pid. None),
      resume_pod_reply = (\<lambda>t pid n. None),
      cancel_requested = (\<lambda>t. False),
      completion_pick = (\<lambda>j. 0),
      uuid_hex8 = (\<lambda>t. ''0a1b2c3d''),
      utc_now = (\<lambda>t. of_nat t),
      isoformat = (\<lambda>x. ''2024-01-01T00:00:00+00:00''),
      json_dumps = (\<lambda>r. deploy_id r @ '' '' @ action r @ '' '' @ status r),
      history_readable = True,
      history_writable = True\<rparr>"

definition example_state :: state where
  "example_state =
     \<lparr>history_file = None, active_deploy = None, deploy_cancelled = False, awaits = 0, trace = []\<rparr>"

definition example_deploy :: "Pod list \<Rightarrow> deploy_args" where
  "example_deploy pods =
     \<lparr>target_pods = pods, da_new_image = ''img:v2'', grace_period_minutes = 1,
      health_check_timeout = 10, on_state_change = False, on_progress = True,
      on_countdown = False\<rparr>"

definition example_scale_up :: "int \<Rightarrow> scale_up_args" where
  "example_scale_up n =
     \<lparr>su_count = n, su_name_prefix = ''w'', su_image_name = ''img:v1'', su_gpu_type_id = ''A100'',
      su_gpu_count = 1, su_cloud_type = ''ALL'', su_volume_in_gb = 20,
      su_container_disk_in_gb = 20, su_ports = ''8888/http'',
      su_volume_mount_path = ''/workspace'', su_env = None, su_template_id = None,
      su_on_progress = True\<rparr>"

text \<open>Worlds in which the creation at await number 2, or every creation, fails.\<close>

definition capacity_world :: world where
  "capacity_world =
     example_world\<lparr>create_pod_reply :=
       (\<lambda>t req. if t = 2 then Inl (RunPodError ''There are no longer any instances available'')
                 else Inr (example_pod (req_name req)))\<rparr>"

definition flaky_world :: world where
  "flaky_world =
     example_world\<lparr>create_pod_reply :=
       (\<lambda>t req. if t = 2 then Inl (RunPodError ''timeout'')
                 else Inr (example_pod (req_name req)))\<rparr>"

definition failing_world :: world where
  "failing_world = example_world\<lparr>create_pod_reply := (\<lambda>t req. Inl (RunPodError ''quota''))\<rparr>"

text \<open>A world in which, of two pending calls, the one issued last completes first.\<close>

definition last_first_world :: world where
  "last_first_world = example_world\<lparr>completion_pick := (\<lambda>j. 1)\<rparr>"

definition example_scale_down :: "string list \<Rightarrow> scale_down_args" where
  "example_scale_down pids = \<lparr>sd_pod_ids = pids, sd_action = ''stop'', sd_on_progress = True\<rparr>"

text \<open>A world in which stopping the pod \<open>b\<close> fails.\<close>

definition stubborn_world :: world where
  "stubborn_world =
     example_world\<lparr>stop_pod_reply :=
       (\<lambda>t pid. if pid = ''b'' then Some (RunPodError ''pod is busy'') else None)\<rparr>"

text \<open>
  Worlds for the rolling deploy. In \<open>unhealthy_world\<close> a polled pod never has a runtime. In
  \<open>gateway_error_world\<close>, moreover, the termination of a pod raises an exception that is not
  a \<open>RunPodError\<close>, as the client does on an HTTP error status with a body that is not JSON.
\<close>

definition unhealthy_world :: world where
  "unhealthy_world =
     example_world\<lparr>get_pod_reply := (\<lambda>t pid. Inr ((example_pod pid)\<lparr>runtime := None\<rparr>))\<rparr>"

definition gateway_error_world :: world where
  "gateway_error_world =
     unhealthy_world\<lparr>terminate_pod_reply := (\<lambda>t pid. Some (OtherException ''502 Bad Gateway''))\<rparr>"

text \<open>
  With three targets, a grace period of one minute and no cancellation, the awaits of the
  first target are numbers 0 to 62 (creation, one poll, sixty sleeps, termination of the
  old pod), and the second target's first sleep of the grace period is await number 65.
  In \<open>cancel_in_grace_world\<close> the user cancels during that sleep; in \<open>cancel_at_top_world\<close>
  during the termination of the first old pod; in \<open>cancel_gateway_error_world\<close> during that
  sleep, and the termination that follows raises an exception that is not a
  \<open>RunPodError\<close>.
\<close>

definition cancel_in_grace_world :: world where
  "cancel_in_grace_world = example_world\<lparr>cancel_requested := (\<lambda>t. t = 65)\<rparr>"

definition cancel_at_top_world :: world where
  "cancel_at_top_world = example_world\<lparr>cancel_requested := (\<lambda>t. t = 62)\<rparr>"

definition cancel_gateway_error_world :: world where
  "cancel_gateway_error_world =
     cancel_in_grace_world\<lparr>terminate_pod_reply :=
       (\<lambda>t pid. if t = 66 then Some (OtherException ''502 Bad Gateway'') else None)\<rparr>"

definition three_pods :: "Pod list" where
  "three_pods = [example_pod ''p1'', example_pod ''p2'', example_pod ''p3'']"

text \<open>
  The deploy of \<open>three_pods\<close> from \<open>example_state\<close>, taken apart at the second target: the
  loop over the first target, then the creation, the health check and the grace period of
  the replacement of the second.
\<close>

definition before_second :: "world \<Rightarrow> step" where
  "before_second w =
     deploy_steps w (example_deploy three_pods) (uuid_hex8 w (awaits example_state))
       [example_pod ''p1''] []
       (deploy_record w (example_deploy three_pods) example_state)
       (deploy_start w (example_deploy three_pods) example_state)"

definition second_created :: "world \<Rightarrow> (exn + Pod) \<times> state" where
  "second_created w =
     create_replacement w (example_deploy three_pods) (uuid_hex8 w (awaits example_state))
       (example_pod ''p2'') (next_state (before_second w))"

definition second_checked :: "world \<Rightarrow> (exn + bool) \<times> state" where
  "second_checked w =
     health_check w (example_deploy three_pods) (example_pod ''p2'')
       (example_pod ''worker-p2-v2-0a1b2c3d'') (snd (second_created w))"

definition second_drained :: "world \<Rightarrow> state" where
  "second_drained w =
     drain w (example_deploy three_pods) (example_pod ''p2'')
       (example_pod ''worker-p2-v2-0a1b2c3d'') (snd (second_checked w))"

section \<open>Cost estimator\<close>

lemma lowest_price_cases:
  "lowest_price g =
     (if 0 < community_price g \<and> 0 < secure_price g then min (community_price g) (secure_price g)
      else if 0 < community_price g then community_price g
      else if 0 < secure_price g then secure_price g
      else 0)"
  by (simp add: lowest_price_def)

text \<open>
  For every input: the price is the community price for the tier \<open>COMMUNITY\<close>, the secure
  price for \<open>SECURE\<close>, and for any other tier the smaller of the prices that are greater
  than zero (the one such price if there is only one, 0 if there is none).
\<close>

lemma estimate_cost_present_prices:
  assumes "price =
     (if tier = ''COMMUNITY'' then community_price g
      else if tier = ''SECURE'' then secure_price g
      else if 0 < community_price g \<and> 0 < secure_price g
           then min (community_price g) (secure_price g)
      else if 0 < community_price g then community_price g
      else if 0 < secure_price g then secure_price g
      else 0)"
  shows "per_pod_hr (estimate_cost g gc pc tier h) = price * of_int gc
       \<and> total_hr (estimate_cost g gc pc tier h) = per_pod_hr (estimate_cost g gc pc tier h) * of_int pc
       \<and> total_period (estimate_cost g gc pc tier h) = total_hr (estimate_cost g gc pc tier h) * h"
  unfolding assms estimate_cost_def lowest_price_cases
  by (simp add: Let_def)

text \<open>
  Claim C7. The prices of a \<open>GpuType\<close> are the provider's prices, read by the client as
  \<open>float(raw.get(..., 0) or 0)\<close>: a price is never negative, and 0 stands for a price
  that is absent. For such prices, every GPU count, pod count, tier and number of hours:
  the price is the community price for the tier \<open>COMMUNITY\<close>, the secure price for
  \<open>SECURE\<close>, and for any other tier the minimum of the non-zero prices among the two (the
  one non-zero price if only one is, 0 if both are zero); the hourly cost of a pod is the
  price times the GPU count, the total hourly cost is that times the pod count, the cost
  of the period is that times the hours. The function is total and has no state. Floats
  are taken as real numbers.
\<close>

theorem estimate_cost_price_selection:
  assumes "0 \<le> community_price g" and "0 \<le> secure_price g"
    and "price =
     (if tier = ''COMMUNITY'' then community_price g
      else if tier = ''SECURE'' then secure_price g
      else if community_price g \<noteq> 0 \<and> secure_price g \<noteq> 0
           then min (community_price g) (secure_price g)
      else if community_price g \<noteq> 0 then community_price g
      else if secure_price g \<noteq> 0 then secure_price g
      else 0)"
  shows "per_pod_hr (estimate_cost g gc pc tier h) = price * of_int gc
       \<and> total_hr (estimate_cost g gc pc tier h) = per_pod_hr (estimate_cost g gc pc tier h) * of_int pc
       \<and> total_period (estimate_cost g gc pc tier h) = total_hr (estimate_cost g gc pc tier h) * h"
proof -
  have "(0 < community_price g) = (community_price g \<noteq> 0)"
    and "(0 < secure_price g) = (secure_price g \<noteq> 0)"
    using assms(1,2) by auto
  then show ?thesis
    unfolding assms(3) estimate_cost_def lowest_price_cases
    by (simp add: Let_def)
qed

text \<open>
  The examples of the specification: prices 0.5 and 0.8, two GPUs, three pods, one hour,
  for the blended tier and for \<open>SECURE\<close>; and a type with no community price.
\<close>

theorem estimate_cost_price_selection_witness:
  "(per_pod_hr (estimate_cost \<lparr>gpu_id = ''g'', display_name = ''G'', secure_price = 8 / 10, community_price = 1 / 2\<rparr> 2 3 ''ALL'' 1) = 1
   \<and> total_hr (estimate_cost \<lparr>gpu_id = ''g'', display_name = ''G'', secure_price = 8 / 10, community_price = 1 / 2\<rparr> 2 3 ''ALL'' 1) = 3
   \<and> total_period (estimate_cost \<lparr>gpu_id = ''g'', display_name = ''G'', secure_price = 8 / 10, community_price = 1 / 2\<rparr> 2 3 ''ALL'' 1) = 3)
   \<and> (per_pod_hr (estimate_cost \<lparr>gpu_id = ''g'', display_name = ''G'', secure_price = 8 / 10, community_price = 1 / 2\<rparr> 2 3 ''SECURE'' 1) = 16 / 10
   \<and> total_hr (estimate_cost \<lparr>gpu_id = ''g'', display_name = ''G'', secure_price = 8 / 10, community_price = 1 / 2\<rparr> 2 3 ''SECURE'' 1) = 48 / 10)
   \<and> per_pod_hr (estimate_cost \<lparr>gpu_id = ''g'', display_name = ''G'', secure_price = 8 / 10, community_price = 0\<rparr> 2 3 ''ALL'' 1) = 16 / 10"
  using estimate_cost_price_selection [of
      "\<lparr>gpu_id = ''g'', display_name = ''G'', secure_price = 8 / 10, community_price = 1 / 2\<rparr>"
      "1 / 2" "''ALL''" 2 3 1]
    estimate_cost_price_selection [of
      "\<lparr>gpu_id = ''g'', display_name = ''G'', secure_price = 8 / 10, community_price = 1 / 2\<rparr>"
      "8 / 10" "''SECURE''" 2 3 1]
    estimate_cost_price_selection [of
      "\<lparr>gpu_id = ''g'', display_name = ''G'', secure_price = 8 / 10, community_price = 0\<rparr>"
      "8 / 10" "''ALL''" 2 3 1]
  by simp

section \<open>Journal compaction\<close>

lemma concat_readlines: "concat (readlines s) = s"
  by (induction s) (auto split: list.splits)

lemma slice_from_zero: "slice_from 0 xs = xs"
  by (simp add: slice_from_def)

lemma slice_from_last:
  "0 < keep \<Longrightarrow> slice_from (- keep) xs = drop (length xs - nat keep) xs"
  by (auto simp: slice_from_def Let_def max_def nat_diff_distrib'
        intro: arg_cong [where f = "\<lambda>n. drop n xs"])

text \<open>
  For a positive \<open>keep\<close> and a journal that can be read and written, compaction does what
  the specification says: more than \<open>2 * keep\<close> lines are cut down to the last \<open>keep\<close>
  lines, anything else is left as it is.
\<close>

lemma truncate_history_positive_keep:
  assumes "history_file st = Some content" "history_readable w" "history_writable w" "0 < keep"
  shows "history_file (truncate_history w keep st) =
           (if int (length (readlines content)) > 2 * keep
            then Some (concat (drop (length (readlines content) - nat keep) (readlines content)))
            else Some content)"
  using assms by (simp add: truncate_history_def Let_def slice_from_last mult.commute)

lemma truncate_history_missing_file:
  "history_file st = None \<Longrightarrow> truncate_history w keep st = st"
  by (simp add: truncate_history_def)

text \<open>With \<open>keep = 0\<close> the slice \<open>lines[-0:]\<close> is the whole list: nothing is ever dropped.\<close>

lemma truncate_history_keep_zero:
  assumes "history_file st = Some content"
  shows "truncate_history w 0 st = st"
proof -
  have "st\<lparr>history_file := Some content\<rparr> = st"
    using assms by simp
  then show ?thesis
    using assms by (simp add: truncate_history_def Let_def slice_from_zero concat_readlines)
qed

text \<open>
  Claim C8 at \<open>keep = 0\<close>: a journal of one line holds more than \<open>2 * 0\<close> lines, so it should
  be rewritten to its last 0 lines, the empty text; \<open>truncate_history\<close> writes the one line
  back.
\<close>

theorem truncate_history_keep_zero_unchanged:
  "int (length (readlines [CHR ''a'', newline])) > 2 * 0
   \<and> history_file (truncate_history example_world 0
        (example_state\<lparr>history_file := Some [CHR ''a'', newline]\<rparr>)) = Some [CHR ''a'', newline]
   \<and> concat (drop (length (readlines [CHR ''a'', newline]) - 0) (readlines [CHR ''a'', newline])) = []"
  by (simp add: truncate_history_def Let_def slice_from_def example_world_def)

section \<open>Cancelling while idle; deploying nothing\<close>

text \<open>
  Claim C9. \<open>cancel_deploy\<close> only sets the flag, and \<open>rolling_deploy\<close> resets the flag before
  it reads it: a rolling deploy that follows a \<open>cancel_deploy\<close> returns the same record and
  leaves the same state and trace as one that does not, in every world.
\<close>

theorem cancel_deploy_before_rolling_deploy:
  "rolling_deploy w a (cancel_deploy st) = rolling_deploy w a st"
  by (simp add: rolling_deploy_def cancel_deploy_def deploy_record_def deploy_start_def)

text \<open>
  Claim C10. With no target pods, \<open>rolling_deploy\<close> returns a record with status
  \<open>completed\<close>, pod count 0, no pod ids and no error; it awaits nothing and calls no
  callback (the trace and the number of awaits are unchanged); and the line of that
  record is appended to the journal whenever the file can be opened for writing.
\<close>

theorem rolling_deploy_no_targets:
  assumes "target_pods a = []"
  shows "\<exists>r st'. rolling_deploy w a st = (Inr r, st')
           \<and> status r = status_value COMPLETED \<and> pod_count r = 0 \<and> pod_ids r = [] \<and> error r = []
           \<and> trace st' = trace st \<and> awaits st' = awaits st \<and> active_deploy st' = None
           \<and> history_file st' =
                (if history_writable w
                 then Some ((case history_file st of None \<Rightarrow> [] | Some c \<Rightarrow> c) @ json_dumps w r @ [newline])
                 else history_file st)"
  using assms
  by (simp add: rolling_deploy_def deploy_finish_def deploy_start_def deploy_record_def
      new_record_def record_deploy_def Let_def)

theorem rolling_deploy_no_targets_witness:
  "target_pods (example_deploy []) = []
   \<and> (\<exists>r st'. rolling_deploy example_world (example_deploy []) example_state = (Inr r, st')
         \<and> status r = ''completed'' \<and> pod_count r = 0 \<and> pod_ids r = [] \<and> error r = []
         \<and> trace st' = [] \<and> awaits st' = 0
         \<and> history_file st' = Some (json_dumps example_world r @ [newline]))"
proof -
  have t: "target_pods (example_deploy []) = []"
    by (simp add: example_deploy_def)
  have s: "trace example_state = []" "awaits example_state = 0" "history_file example_state = None"
    by (simp_all add: example_state_def)
  have w: "history_writable example_world"
    by (simp add: example_world_def)
  from rolling_deploy_no_targets [OF t, of example_world example_state] t s w
  show ?thesis
    by auto
qed

section \<open>Scale up\<close>

text \<open>
  The loop in closed form. Entered at index \<open>m\<close> with \<open>awaits st = t0 + m\<close>, it attempts the
  indices of \<open>[m..<n]\<close> up to the first capacity failure; the pods and error texts of these
  attempts are appended to the accumulators, and the trace holds one \<open>CreatePod\<close> per
  attempted index.
\<close>

lemma scale_up_loop_range:
  assumes "awaits st = t0 + m"
  shows "scale_up_loop w a did [m..<n] created errors st =
     (let idx = upto_first (\<lambda>i. capacity_failure (attempt w a did t0 i)) [m..<n];
          new = pods_of (map (attempt w a did t0) idx)
      in (created @ new,
          errors @ concat (map (attempt_error w a did t0) idx) @
            (if list_ex (\<lambda>i. capacity_failure (attempt w a did t0 i)) idx
             then [stopped_note (length (created @ new)) (su_count a)] else []),
          st\<lparr>trace := trace st @ concat (map (attempt_events w a did t0) idx),
             deploy_cancelled := (deploy_cancelled st \<or> list_ex (\<lambda>i. cancel_requested w (t0 + i)) idx),
             awaits := t0 + m + length idx\<rparr>))"
  using assms
proof (induction "n - m" arbitrary: m created errors st)
  case 0
  then have "[m..<n] = []" by simp
  then show ?case using 0 by simp
next
  case (Suc d)
  then have mn: "m < n" and d: "d = n - Suc m" by auto
  have upt: "[m..<n] = m # [Suc m..<n]"
    using mn by (simp add: upt_conv_Cons)
  have rep: "create_pod_reply w (awaits st) (scale_up_request a did m) = attempt w a did t0 m"
    using Suc.prems by (simp add: attempt_def)
  show ?case
  proof (cases "attempt w a did t0 m")
    case (Inr pod)
    let ?st1 = "emit (su_on_progress a) (Progress (int m + 1) (su_count a))
                  (suspend w (CreatePod (scale_up_request a did m)) st)"
    have aw: "awaits ?st1 = t0 + Suc m"
      using Suc.prems by (simp add: emit_def suspend_def)
    have ncap: "\<not> capacity_failure (attempt w a did t0 m)"
      using Inr by (simp add: capacity_failure_def)
    show ?thesis
      unfolding upt
      using Suc.hyps(1) [OF d aw, of "created @ [pod]" errors] Inr rep ncap Suc.prems
      by (simp add: create_pod_def Let_def attempt_error_def attempt_events_def emit_def suspend_def)
  next
    case (Inl e)
    let ?st1 = "suspend w (CreatePod (scale_up_request a did m)) st"
    have aw: "awaits ?st1 = t0 + Suc m"
      using Suc.prems by (simp add: suspend_def)
    show ?thesis
    proof (cases "gpus_ran_out (str_exn e)")
      case True
      then have cap: "capacity_failure (attempt w a did t0 m)"
        using Inl by (simp add: capacity_failure_def)
      show ?thesis
        unfolding upt
        using Inl rep cap True Suc.prems
        by (simp add: create_pod_def Let_def attempt_error_def attempt_events_def suspend_def)
    next
      case False
      then have ncap: "\<not> capacity_failure (attempt w a did t0 m)"
        using Inl by (simp add: capacity_failure_def)
      show ?thesis
        unfolding upt
        using Suc.hyps(1) [OF d aw, of created "errors @ [pod_error m e]"] Inl rep ncap False Suc.prems
        by (simp add: create_pod_def Let_def attempt_error_def attempt_events_def suspend_def)
    qed
  qed
qed

lemma upto_first_none: "\<forall>x\<in>set xs. \<not> P x \<Longrightarrow> upto_first P xs = xs"
  by (induction xs) auto

lemma upto_first_append:
  "upto_first P (xs @ ys) = (if \<exists>x\<in>set xs. P x then upto_first P xs else xs @ upto_first P ys)"
  by (induction xs) auto

lemma upt_split3: "k < n \<Longrightarrow> [0..<n] = [0..<k] @ k # [Suc k..<n]"
  by (metis less_imp_le_nat upt_add_eq_append upt_conv_Cons zero_le le_add_diff_inverse)

lemma upto_first_stop:
  assumes "k < n" "P k" "\<forall>j<k. \<not> P j"
  shows "upto_first P [0..<n] = [0..<Suc k]"
  using assms by (simp add: upt_split3 [of k n] upto_first_append)

lemma upto_first_pass:
  assumes "k < n" "\<not> P k" "\<forall>j<k. \<not> P j"
  shows "upto_first P [0..<n] = [0..<Suc k] @ upto_first P [Suc k..<n]"
  using assms by (simp add: upt_split3 [of k n] upto_first_append)

lemma list_ex_no_capacity:
  "\<forall>j<k. \<not> P j \<Longrightarrow> \<not> list_ex P [0..<k]"
  by (simp add: list_ex_iff)

lemma pods_of_append: "pods_of (xs @ ys) = pods_of xs @ pods_of ys"
  by (induction xs rule: pods_of.induct) auto

text \<open>
  Claim C4. Let the creation at index \<open>k\<close> fail with exception \<open>e\<close>, no earlier creation
  having failed for lack of capacity (so that index \<open>k\<close> is reached). If the message of \<open>e\<close>
  contains "no longer any instances available" in any letter case, the loop returns at
  once: the pods are those created before index \<open>k\<close>, the errors end with the error of
  index \<open>k\<close> and the note "Stopped after K/N" where K is the number of pods created and N
  the requested count, and the last event is the \<open>CreatePod\<close> of index \<open>k\<close>, so that no later
  creation is attempted. Otherwise the error of index \<open>k\<close> is recorded and the loop goes on
  with the indices from \<open>k + 1\<close>.
\<close>

theorem scale_up_early_stop:
  assumes k: "k < nat (su_count a)"
    and fail: "attempt w a did (awaits st) k = Inl e"
    and prev: "\<forall>j<k. \<not> capacity_failure (attempt w a did (awaits st) j)"
  shows "(gpus_ran_out (str_exn e) \<longrightarrow>
            scale_up_loop w a did [0 ..< nat (su_count a)] [] [] st =
              (pods_of (map (attempt w a did (awaits st)) [0..<k]),
               concat (map (attempt_error w a did (awaits st)) [0..<k]) @
                 [pod_error k e,
                  stopped_note (length (pods_of (map (attempt w a did (awaits st)) [0..<k]))) (su_count a)],
               st\<lparr>trace := trace st @ concat (map (attempt_events w a did (awaits st)) [0..<k]) @
                              [CreatePod (scale_up_request a did k)],
                  deploy_cancelled :=
                    (deploy_cancelled st \<or> list_ex (\<lambda>i. cancel_requested w (awaits st + i)) [0..<Suc k]),
                  awaits := awaits st + Suc k\<rparr>))
       \<and> (\<not> gpus_ran_out (str_exn e) \<longrightarrow>
            scale_up_loop w a did [0 ..< nat (su_count a)] [] [] st =
              scale_up_loop w a did [Suc k ..< nat (su_count a)]
                (pods_of (map (attempt w a did (awaits st)) [0..<k]))
                (concat (map (attempt_error w a did (awaits st)) [0..<k]) @ [pod_error k e])
                (st\<lparr>trace := trace st @ concat (map (attempt_events w a did (awaits st)) [0..<k]) @
                              [CreatePod (scale_up_request a did k)],
                   deploy_cancelled :=
                     (deploy_cancelled st \<or> list_ex (\<lambda>i. cancel_requested w (awaits st + i)) [0..<Suc k]),
                   awaits := awaits st + Suc k\<rparr>))"
proof (intro conjI impI)
  let ?P = "\<lambda>i. capacity_failure (attempt w a did (awaits st) i)"
  have ek: "attempt_error w a did (awaits st) k = [pod_error k e]"
    "attempt_events w a did (awaits st) k = [CreatePod (scale_up_request a did k)]"
    using fail by (simp_all add: attempt_error_def attempt_events_def)
  {
    assume cap: "gpus_ran_out (str_exn e)"
    then have Pk: "?P k"
      using fail by (simp add: capacity_failure_def)
    have idx: "upto_first ?P [0..<nat (su_count a)] = [0..<Suc k]"
      using upto_first_stop [of k "nat (su_count a)" ?P] k Pk prev by simp
    have ex: "list_ex ?P [0..<Suc k]"
      using Pk by (simp add: list_ex_iff)
    show "scale_up_loop w a did [0 ..< nat (su_count a)] [] [] st =
              (pods_of (map (attempt w a did (awaits st)) [0..<k]),
               concat (map (attempt_error w a did (awaits st)) [0..<k]) @
                 [pod_error k e,
                  stopped_note (length (pods_of (map (attempt w a did (awaits st)) [0..<k]))) (su_count a)],
               st\<lparr>trace := trace st @ concat (map (attempt_events w a did (awaits st)) [0..<k]) @
                              [CreatePod (scale_up_request a did k)],
                  deploy_cancelled :=
                    (deploy_cancelled st \<or> list_ex (\<lambda>i. cancel_requested w (awaits st + i)) [0..<Suc k]),
                  awaits := awaits st + Suc k\<rparr>)"
      using scale_up_loop_range [of st "awaits st" 0 w a did "nat (su_count a)" "[]" "[]"] ex
      unfolding idx Let_def
      by (simp add: ek fail pods_of_append)
  }
  {
    assume ncap: "\<not> gpus_ran_out (str_exn e)"
    then have Pk: "\<not> ?P k"
      using fail by (simp add: capacity_failure_def)
    let ?st1 = "st\<lparr>trace := trace st @ concat (map (attempt_events w a did (awaits st)) [0..<k]) @
                              [CreatePod (scale_up_request a did k)],
                   deploy_cancelled :=
                     (deploy_cancelled st \<or> list_ex (\<lambda>i. cancel_requested w (awaits st + i)) [0..<Suc k]),
                   awaits := awaits st + Suc k\<rparr>"
    have idx: "upto_first ?P [0..<nat (su_count a)] = [0..<Suc k] @ upto_first ?P [Suc k..<nat (su_count a)]"
      using upto_first_pass [of k "nat (su_count a)" ?P] k Pk prev by simp
    have nex: "\<not> list_ex ?P [0..<Suc k]"
      using Pk prev by (auto simp: list_ex_iff less_Suc_eq)
    have aw: "awaits ?st1 = awaits st + Suc k"
      by simp
    show "scale_up_loop w a did [0 ..< nat (su_count a)] [] [] st =
              scale_up_loop w a did [Suc k ..< nat (su_count a)]
                (pods_of (map (attempt w a did (awaits st)) [0..<k]))
                (concat (map (attempt_error w a did (awaits st)) [0..<k]) @ [pod_error k e])
                ?st1"
      unfolding scale_up_loop_range [of st "awaits st" 0 w a did "nat (su_count a)" "[]" "[]", simplified]
        scale_up_loop_range [OF aw, of w a did]
      unfolding idx Let_def
      using nex
      by (simp add: ek fail pods_of_append disj_commute disj_left_commute add.assoc)
  }
qed

theorem scale_up_early_stop_witness:
  "fst (scale_up_loop capacity_world (example_scale_up 5) ''0a1b2c3d''
          [0 ..< nat (su_count (example_scale_up 5))] [] [] example_state) =
     [example_pod ''w-0a1b2c3d-0'', example_pod ''w-0a1b2c3d-1'']
   \<and> fst (snd (scale_up_loop capacity_world (example_scale_up 5) ''0a1b2c3d''
          [0 ..< nat (su_count (example_scale_up 5))] [] [] example_state)) =
     [''Pod 3: There are no longer any instances available'',
      ''Stopped after 2/5 '' @ em_dash @ '' no GPUs available'']
   \<and> trace (snd (snd (scale_up_loop capacity_world (example_scale_up 5) ''0a1b2c3d''
          [0 ..< nat (su_count (example_scale_up 5))] [] [] example_state))) =
     [CreatePod (scale_up_request (example_scale_up 5) ''0a1b2c3d'' 0), Progress 1 5,
      CreatePod (scale_up_request (example_scale_up 5) ''0a1b2c3d'' 1), Progress 2 5,
      CreatePod (scale_up_request (example_scale_up 5) ''0a1b2c3d'' 2)]
   \<and> scale_up_loop flaky_world (example_scale_up 5) ''0a1b2c3d''
          [0 ..< nat (su_count (example_scale_up 5))] [] [] example_state =
     scale_up_loop flaky_world (example_scale_up 5) ''0a1b2c3d''
          [Suc 2 ..< nat (su_count (example_scale_up 5))]
          [example_pod ''w-0a1b2c3d-0'', example_pod ''w-0a1b2c3d-1''] [''Pod 3: timeout'']
          \<lparr>history_file = None, active_deploy = None, deploy_cancelled = False, awaits = 3,
           trace = [CreatePod (scale_up_request (example_scale_up 5) ''0a1b2c3d'' 0), Progress 1 5,
                    CreatePod (scale_up_request (example_scale_up 5) ''0a1b2c3d'' 1), Progress 2 5,
                    CreatePod (scale_up_request (example_scale_up 5) ''0a1b2c3d'' 2)]\<rparr>"
proof -
  let ?a = "example_scale_up 5" and ?d = "''0a1b2c3d''" and ?s = example_state
  let ?e1 = "RunPodError ''There are no longer any instances available''"
  let ?e2 = "RunPodError ''timeout''"
  have k: "2 < nat (su_count ?a)"
    by code_simp
  have f1: "attempt capacity_world ?a ?d (awaits ?s) 2 = Inl ?e1"
    and f2: "attempt flaky_world ?a ?d (awaits ?s) 2 = Inl ?e2"
    by code_simp+
  have "\<not> capacity_failure (attempt capacity_world ?a ?d (awaits ?s) 0)"
    "\<not> capacity_failure (attempt capacity_world ?a ?d (awaits ?s) (Suc 0))"
    "\<not> capacity_failure (attempt flaky_world ?a ?d (awaits ?s) 0)"
    "\<not> capacity_failure (attempt flaky_world ?a ?d (awaits ?s) (Suc 0))"
    by code_simp+
  then have p1: "\<forall>j<2. \<not> capacity_failure (attempt capacity_world ?a ?d (awaits ?s) j)"
    and p2: "\<forall>j<2. \<not> capacity_failure (attempt flaky_world ?a ?d (awaits ?s) j)"
    by (auto dest!: less_2_cases)
  have g1: "gpus_ran_out (str_exn ?e1)" and g2: "\<not> gpus_ran_out (str_exn ?e2)"
    by code_simp+
  have c: "pods_of (map (attempt capacity_world ?a ?d (awaits ?s)) [0..<2]) =
             [example_pod ''w-0a1b2c3d-0'', example_pod ''w-0a1b2c3d-1'']"
    "concat (map (attempt_error capacity_world ?a ?d (awaits ?s)) [0..<2]) @
       [pod_error 2 ?e1,
        stopped_note (length [example_pod ''w-0a1b2c3d-0'', example_pod ''w-0a1b2c3d-1'']) (su_count ?a)] =
     [''Pod 3: There are no longer any instances available'',
      ''Stopped after 2/5 '' @ em_dash @ '' no GPUs available'']"
    "trace ?s @ concat (map (attempt_events capacity_world ?a ?d (awaits ?s)) [0..<2]) @
       [CreatePod (scale_up_request ?a ?d 2)] =
     [CreatePod (scale_up_request ?a ?d 0), Progress 1 5,
      CreatePod (scale_up_request ?a ?d 1), Progress 2 5,
      CreatePod (scale_up_request ?a ?d 2)]"
    by code_simp+
  have f: "pods_of (map (attempt flaky_world ?a ?d (awaits ?s)) [0..<2]) =
             [example_pod ''w-0a1b2c3d-0'', example_pod ''w-0a1b2c3d-1'']"
    "concat (map (attempt_error flaky_world ?a ?d (awaits ?s)) [0..<2]) @ [pod_error 2 ?e2] =
       [''Pod 3: timeout'']"
    "?s\<lparr>trace := trace ?s @ concat (map (attempt_events flaky_world ?a ?d (awaits ?s)) [0..<2]) @
                   [CreatePod (scale_up_request ?a ?d 2)],
        deploy_cancelled :=
          (deploy_cancelled ?s \<or> list_ex (\<lambda>i. cancel_requested flaky_world (awaits ?s + i)) [0..<Suc 2]),
        awaits := awaits ?s + Suc 2\<rparr> =
     \<lparr>history_file = None, active_deploy = None, deploy_cancelled = False, awaits = 3,
      trace = [CreatePod (scale_up_request ?a ?d 0), Progress 1 5,
               CreatePod (scale_up_request ?a ?d 1), Progress 2 5,
               CreatePod (scale_up_request ?a ?d 2)]\<rparr>"
    by code_simp+
  note A = scale_up_early_stop [OF k f1 p1, THEN conjunct1, rule_format, OF g1]
  note B = scale_up_early_stop [OF k f2 p2, THEN conjunct2, rule_format, OF g2]
  show ?thesis
    unfolding A B
    by (simp only: fst_conv snd_conv c f) simp
qed

lemma attempt_error_Nil: "(attempt_error w a did t0 i = []) = (\<exists>p. attempt w a did t0 i = Inr p)"
  by (cases "attempt w a did t0 i") (simp_all add: attempt_error_def)

lemma capacity_failure_Inl: "capacity_failure x \<Longrightarrow> \<exists>e. x = Inl e"
  by (cases x) (simp_all add: capacity_failure_def)

lemma reply_errors_Nil: "(reply_errors w a st = []) = (\<forall>e. Inl e \<notin> set (replies w a st))"
proof
  assume "reply_errors w a st = []"
  then show "\<forall>e. Inl e \<notin> set (replies w a st)"
    by (auto simp: reply_errors_def replies_def attempt_error_Nil split: if_splits)
next
  assume allr: "\<forall>e. Inl e \<notin> set (replies w a st)"
  then have "\<not> list_ex capacity_failure (replies w a st)"
    by (auto simp: list_ex_iff dest: capacity_failure_Inl)
  moreover have "\<forall>i\<in>set (attempted w a st).
      attempt_error w a (uuid_hex8 w (awaits st)) (awaits st) i = []"
  proof
    fix i assume "i \<in> set (attempted w a st)"
    then have "attempt w a (uuid_hex8 w (awaits st)) (awaits st) i \<in> set (replies w a st)"
      by (simp add: replies_def)
    with allr show "attempt_error w a (uuid_hex8 w (awaits st)) (awaits st) i = []"
      by (cases "attempt w a (uuid_hex8 w (awaits st)) (awaits st) i") (auto simp: attempt_error_def)
  qed
  ultimately show "reply_errors w a st = []"
    by (simp add: reply_errors_def)
qed

lemma scale_up_loop_whole:
  "scale_up_loop w a (uuid_hex8 w (awaits st)) [0 ..< nat (su_count a)] [] [] st =
     (pods_of (replies w a st), reply_errors w a st,
      st\<lparr>trace := trace st @
             concat (map (attempt_events w a (uuid_hex8 w (awaits st)) (awaits st)) (attempted w a st)),
         deploy_cancelled :=
           (deploy_cancelled st \<or> list_ex (\<lambda>i. cancel_requested w (awaits st + i)) (attempted w a st)),
         awaits := awaits st + length (attempted w a st)\<rparr>)"
  using scale_up_loop_range [of st "awaits st" 0 w a "uuid_hex8 w (awaits st)" "nat (su_count a)" "[]" "[]"]
  by (simp add: Let_def attempted_def replies_def reply_errors_def list_ex_iff)

text \<open>
  Claim C3. For every requested count and every world: the record's pod ids are the ids of
  the pods that the attempted creations returned, in order, and its pod count is their
  number; the status is \<open>failed\<close> exactly when some attempted creation failed and none
  returned a pod, and \<open>completed\<close> in every other case; the error field is the error texts
  joined with "; " (empty when there is none); and the creations attempted are exactly the
  \<open>CreatePod\<close> events of the trace.
\<close>

theorem scale_up_outcome:
  "pod_ids (fst (scale_up w a st)) = map pod_id (pods_of (replies w a st))
   \<and> pod_count (fst (scale_up w a st)) = int (length (pods_of (replies w a st)))
   \<and> (status (fst (scale_up w a st)) = status_value FAILED) =
       ((\<exists>e. Inl e \<in> set (replies w a st)) \<and> pods_of (replies w a st) = [])
   \<and> (status (fst (scale_up w a st)) = status_value COMPLETED) =
       (\<not> ((\<exists>e. Inl e \<in> set (replies w a st)) \<and> pods_of (replies w a st) = []))
   \<and> error (fst (scale_up w a st)) = join ''; '' (reply_errors w a st)
   \<and> trace (snd (scale_up w a st)) =
       trace st @ concat (map (attempt_events w a (uuid_hex8 w (awaits st)) (awaits st)) (attempted w a st))"
proof (cases "reply_errors w a st = []")
  case True
  then show ?thesis
    using reply_errors_Nil [of w a st]
    by (simp add: scale_up_def scale_up_loop_whole Let_def new_record_def record_deploy_def)
next
  case False
  then show ?thesis
    using reply_errors_Nil [of w a st]
    by (simp add: scale_up_def scale_up_loop_whole Let_def new_record_def record_deploy_def)
qed

lemma replies_failing:
  "replies failing_world (example_scale_up 3) example_state =
     [Inl (RunPodError ''quota''), Inl (RunPodError ''quota''), Inl (RunPodError ''quota'')]"
  by code_simp

lemma replies_capacity:
  "replies capacity_world (example_scale_up 5) example_state =
     [Inr (example_pod ''w-0a1b2c3d-0''), Inr (example_pod ''w-0a1b2c3d-1''),
      Inl (RunPodError ''There are no longer any instances available'')]"
  by code_simp

lemma errors_capacity:
  "reply_errors capacity_world (example_scale_up 5) example_state =
     [''Pod 3: There are no longer any instances available'',
      ''Stopped after 2/5 '' @ em_dash @ '' no GPUs available'']"
  by code_simp

theorem scale_up_outcome_witness:
  "status (fst (scale_up failing_world (example_scale_up 3) example_state)) = ''failed''
   \<and> pod_count (fst (scale_up failing_world (example_scale_up 3) example_state)) = 0
   \<and> status (fst (scale_up capacity_world (example_scale_up 5) example_state)) = ''completed''
   \<and> pod_count (fst (scale_up capacity_world (example_scale_up 5) example_state)) = 2
   \<and> pod_ids (fst (scale_up capacity_world (example_scale_up 5) example_state)) =
        [''w-0a1b2c3d-0'', ''w-0a1b2c3d-1'']
   \<and> error (fst (scale_up capacity_world (example_scale_up 5) example_state)) =
        ''Pod 3: There are no longer any instances available; Stopped after 2/5 '' @ em_dash @
        '' no GPUs available''"
  using scale_up_outcome [of failing_world "example_scale_up 3" example_state]
    scale_up_outcome [of capacity_world "example_scale_up 5" example_state]
  unfolding replies_failing replies_capacity errors_capacity
  by (simp add: example_pod_def)

section \<open>Scale down\<close>

text \<open>
  The three phases in closed form: every task is started and makes its call, whatever the
  replies are; the tasks resume in the order the world picks, which is a permutation of
  the tasks; a resumed task reports progress if its call succeeded.
\<close>

lemma start_tasks_closed:
  "start_tasks w act pids st =
     (map (\<lambda>(t, pid). task_reply w act t pid) (List.enumerate (awaits st) pids),
      st\<lparr>trace := trace st @ map (task_call act) pids,
         deploy_cancelled :=
           (deploy_cancelled st \<or> list_ex (cancel_requested w) [awaits st ..< awaits st + length pids]),
         awaits := awaits st + length pids\<rparr>)"
proof (induction pids arbitrary: st)
  case Nil
  then show ?case by simp
next
  case (Cons pid pids)
  have upt: "[awaits st ..< awaits st + length (pid # pids)] =
               awaits st # [Suc (awaits st) ..< Suc (awaits st) + length pids]"
    by (subst upt_rec) simp
  show ?case
    unfolding upt
    by (simp add: Cons.IH terminate_pod_def stop_pod_def suspend_def task_reply_def task_call_def)
qed

lemma resume_tasks_closed:
  "resume_tasks cb n results order st =
     st\<lparr>trace := trace st @
            concat (map (\<lambda>i. case results ! i of
                                None \<Rightarrow> if cb then [Progress (int i + 1) (int n)] else []
                              | Some e \<Rightarrow> []) order)\<rparr>"
  by (induction order arbitrary: st) (auto simp: emit_def split: option.splits)

lemma mset_completion_order: "mset (completion_order pick j pending) = mset pending"
proof (induction pick j pending rule: completion_order.induct)
  case (1 pick j pending)
  show ?case
  proof (cases "pending = []")
    case True
    then show ?thesis by (simp add: completion_order.simps)
  next
    case False
    let ?k = "pick j mod length pending"
    have k: "?k < length pending"
      using False by simp
    have "completion_order pick j pending =
            pending ! ?k # completion_order pick (Suc j) (take ?k pending @ drop (Suc ?k) pending)"
      using False by (subst completion_order.simps) (simp add: Let_def)
    then have "mset (completion_order pick j pending) =
            mset (pending ! ?k # (take ?k pending @ drop (Suc ?k) pending))"
      using "1.IH" [OF False refl] by simp
    also have "\<dots> = mset (take ?k pending @ pending ! ?k # drop (Suc ?k) pending)"
      by simp
    also have "\<dots> = mset pending"
      using id_take_nth_drop [OF k] by simp
    finally show ?thesis .
  qed
qed

lemma map_filter_id_Nil: "(List.map_filter id xs = []) = (\<forall>e. Some e \<notin> set xs)"
  by (induction xs) (auto split: option.splits)

text \<open>
  Claim C5. For every list of pod ids (empty or not) and every world: the status is
  \<open>failed\<close> exactly when the call of some task failed and \<open>completed\<close> otherwise; the error
  field is the messages of the failed calls, in the order of the pod ids, joined with
  "; "; pod count and pod ids are those of the request; every task makes its call, in the
  order of the list, and every task resumes exactly once, so that a failing task stops
  no other task.
\<close>

theorem scale_down_outcome:
  "(status (fst (scale_down w a st)) = status_value FAILED) = (\<exists>e. Some e \<in> set (task_replies w a st))
   \<and> (status (fst (scale_down w a st)) = status_value COMPLETED) = (\<not> (\<exists>e. Some e \<in> set (task_replies w a st)))
   \<and> error (fst (scale_down w a st)) = join ''; '' (map str_exn (List.map_filter id (task_replies w a st)))
   \<and> pod_count (fst (scale_down w a st)) = int (length (sd_pod_ids a))
   \<and> pod_ids (fst (scale_down w a st)) = sd_pod_ids a
   \<and> trace (snd (scale_down w a st)) =
        trace st @ map (task_call (sd_action a)) (sd_pod_ids a) @
        concat (map (task_progress w a st)
                  (completion_order (completion_pick w) 0 [0 ..< length (sd_pod_ids a)]))
   \<and> mset (completion_order (completion_pick w) 0 [0 ..< length (sd_pod_ids a)]) =
        mset [0 ..< length (sd_pod_ids a)]"
proof (cases "List.map_filter id (task_replies w a st) = []")
  case True
  then show ?thesis
    using map_filter_id_Nil [of "task_replies w a st"]
    by (simp add: scale_down_def start_tasks_closed resume_tasks_closed Let_def new_record_def
        record_deploy_def task_replies_def [symmetric] mset_completion_order task_progress_def [abs_def])
next
  case False
  then show ?thesis
    using map_filter_id_Nil [of "task_replies w a st"]
    by (simp add: scale_down_def start_tasks_closed resume_tasks_closed Let_def new_record_def
        record_deploy_def task_replies_def [symmetric] mset_completion_order task_progress_def [abs_def])
qed

theorem scale_down_outcome_witness:
  "task_replies stubborn_world (example_scale_down [''a'', ''b'', ''c'', ''d'']) example_state =
     [None, Some (RunPodError ''pod is busy''), None, None]
   \<and> status (fst (scale_down stubborn_world (example_scale_down [''a'', ''b'', ''c'', ''d'']) example_state)) = ''failed''
   \<and> error (fst (scale_down stubborn_world (example_scale_down [''a'', ''b'', ''c'', ''d'']) example_state)) = ''pod is busy''
   \<and> pod_count (fst (scale_down stubborn_world (example_scale_down [''a'', ''b'', ''c'', ''d'']) example_state)) = 4"
proof -
  have r: "task_replies stubborn_world (example_scale_down [''a'', ''b'', ''c'', ''d'']) example_state =
     [None, Some (RunPodError ''pod is busy''), None, None]"
    by code_simp
  have l: "sd_pod_ids (example_scale_down [''a'', ''b'', ''c'', ''d'']) = [''a'', ''b'', ''c'', ''d'']"
    by code_simp
  show ?thesis
    using scale_down_outcome [of stubborn_world "example_scale_down [''a'', ''b'', ''c'', ''d'']" example_state]
    unfolding r l
    by simp
qed

text \<open>
  Claim C6 at two pods whose calls both succeed, the second completing first: the
  callbacks come in completion order, but the first argument is the position of the pod
  in the list plus one, so the calls are \<open>(2, 2)\<close> and then \<open>(1, 2)\<close>, where the number of
  calls completed so far is 1 and then 2.
\<close>

theorem scale_down_progress_by_index:
  "trace (snd (scale_down last_first_world (example_scale_down [''a'', ''b'']) example_state)) =
     [StopPod ''a'', StopPod ''b'', Progress 2 2, Progress 1 2]
   \<and> status (fst (scale_down last_first_world (example_scale_down [''a'', ''b'']) example_state)) =
       ''completed''"
  by code_simp


section \<open>Rolling deploy: the loop and the rollback\<close>

text \<open>
  \<open>except RunPodError: pass\<close> lets through exactly the exceptions that are not a
  \<open>RunPodError\<close>.
\<close>

lemma except_RunPodError_None:
  "(except_RunPodError x = None) = (\<forall>m. x \<noteq> Some (OtherException m))"
  by (cases x rule: except_RunPodError.cases) simp_all

lemma rollback_pairs_trace:
  "rollback_pairs w pairs st = (None, st') \<Longrightarrow> trace st' = trace st @ rollback_calls pairs"
proof (induction pairs arbitrary: st)
  case Nil
  then show ?case by (simp add: rollback_calls_def)
next
  case (Cons pr pairs)
  obtain old_pod new_pod where pr: "pr = (old_pod, new_pod)"
    by (cases pr)
  let ?s1 = "suspend w (TerminatePod (pod_id new_pod)) st"
  let ?s2 = "suspend w (ResumePod (pod_id old_pod) (gpu_count old_pod)) ?s1"
  from Cons.prems have "rollback_pairs w pairs ?s2 = (None, st')"
    by (simp add: pr terminate_pod_def resume_pod_def split: option.splits)
  from Cons.IH [OF this] show ?case
    by (simp add: pr rollback_calls_def suspend_def)
qed

lemma deploy_steps_append:
  "deploy_steps w a did (ps @ qs) pairs r st =
     (case deploy_steps w a did ps pairs r st of
        Next pairs1 r1 st1 \<Rightarrow> deploy_steps w a did qs pairs1 r1 st1
      | Stop r1 st1 \<Rightarrow> Stop r1 st1
      | Throw e pairs1 r1 st1 \<Rightarrow> Throw e pairs1 r1 st1)"
  by (induction ps arbitrary: pairs r st) (auto split: step.splits)

lemma rollback_and_break_not_Next: "rollback_and_break w pairs r stat err st \<noteq> Next pairs1 r1 st1"
  by (simp add: rollback_and_break_def rollback_deploy_def split: prod.splits option.splits)

lemma terminate_and_abort_not_Next:
  "terminate_and_abort w pid pairs r stat err st \<noteq> Next pairs1 r1 st1"
  by (simp add: terminate_and_abort_def rollback_and_break_not_Next split: prod.splits option.splits)

lemma switch_over_Next:
  "switch_over w a old_pod new_pod pairs r st = Next pairs1 r1 st1 \<Longrightarrow>
     r1 = r \<and> pairs1 = pairs @ [(old_pod, new_pod)]"
  by (auto simp: switch_over_def split: prod.splits option.splits)

lemma deploy_one_Next:
  assumes "deploy_one w a did old_pod pairs r st = Next pairs1 r1 st1"
  shows "r1 = r \<and> (\<exists>new_pod. pairs1 = pairs @ [(old_pod, new_pod)])"
  using assms
  by (auto simp: deploy_one_def rollback_and_break_not_Next terminate_and_abort_not_Next
      split: if_splits prod.splits sum.splits bool.splits dest: switch_over_Next)

lemma deploy_steps_Next:
  "deploy_steps w a did ps pairs r st = Next pairs1 r1 st1 \<Longrightarrow>
     r1 = r \<and> map fst pairs1 = map fst pairs @ ps"
proof (induction ps arbitrary: pairs r st)
  case Nil
  then show ?case by simp
next
  case (Cons p ps)
  from Cons.prems obtain pairs2 r2 st2 where
    one: "deploy_one w a did p pairs r st = Next pairs2 r2 st2"
    and rest: "deploy_steps w a did ps pairs2 r2 st2 = Next pairs1 r1 st1"
    by (auto split: step.splits)
  from deploy_one_Next [OF one] Cons.IH [OF rest] show ?case
    by auto
qed


text \<open>Callbacks and the journal await nothing; every await advances the count by one.\<close>

lemma emit_fields [simp]:
  "awaits (emit cb e st) = awaits st"
  "deploy_cancelled (emit cb e st) = deploy_cancelled st"
  "history_file (emit cb e st) = history_file st"
  by (simp_all add: emit_def)

lemma suspend_fields [simp]:
  "awaits (suspend w e st) = Suc (awaits st)"
  "trace (suspend w e st) = trace st @ [e]"
  "history_file (suspend w e st) = history_file st"
  by (simp_all add: suspend_def)

lemma record_deploy_fields [simp]:
  "trace (record_deploy w r st) = trace st"
  "awaits (record_deploy w r st) = awaits st"
  by (simp_all add: record_deploy_def)

lemma wait_loop_awaits:
  "wait_loop w pid timeout elapsed st = (x, st') \<Longrightarrow> awaits st \<le> awaits st'"
proof (induction "nat (timeout - elapsed)" arbitrary: elapsed st rule: less_induct)
  case less
  have IH: "\<And>s. elapsed < timeout \<Longrightarrow> wait_loop w pid timeout (elapsed + 5) s = (x, st')
              \<Longrightarrow> awaits s \<le> awaits st'"
    using less.hyps [of "elapsed + 5"] by simp
  from less.prems show ?case
    by (subst (asm) wait_loop.simps)
       (auto simp: get_pod_def sleep_def split: if_splits sum.splits exn.splits dest!: IH)
qed

lemma grace_loop_awaits: "awaits st \<le> awaits (grace_loop w cb remaining st)"
proof (induction w cb remaining st rule: grace_loop.induct)
  case (1 w cb remaining st)
  show ?case
  proof (cases "remaining > 0 \<and> \<not> deploy_cancelled st")
    case True
    from "1.IH" [OF True] have "awaits st \<le> awaits (grace_loop w cb (remaining - 1)
        (sleep w (min 1 remaining) (emit cb (Countdown remaining) st)))"
      by (simp add: sleep_def)
    with True show ?thesis
      by (simp add: grace_loop.simps [of w cb remaining st])
  next
    case False
    then show ?thesis
      by (auto simp: grace_loop.simps [of w cb remaining st])
  qed
qed


text \<open>
  When no termination and no resumption raises anything but a \<open>RunPodError\<close>, no
  exception escapes from the rollback.
\<close>

lemma rollback_pairs_best_effort:
  assumes "\<And>t pid m. awaits st \<le> t \<Longrightarrow> terminate_pod_reply w t pid \<noteq> Some (OtherException m)"
    and "\<And>t pid n m. awaits st \<le> t \<Longrightarrow> resume_pod_reply w t pid n \<noteq> Some (OtherException m)"
  shows "fst (rollback_pairs w pairs st) = None"
  using assms
proof (induction pairs arbitrary: st)
  case Nil
  then show ?case by simp
next
  case (Cons pr pairs)
  obtain old_pod new_pod where pr: "pr = (old_pod, new_pod)"
    by (cases pr)
  let ?s1 = "suspend w (TerminatePod (pod_id new_pod)) st"
  let ?s2 = "suspend w (ResumePod (pod_id old_pod) (gpu_count old_pod)) ?s1"
  have t: "except_RunPodError (terminate_pod_reply w (awaits st) (pod_id new_pod)) = None"
    using Cons.prems(1) [of "awaits st"] by (simp add: except_RunPodError_None)
  have r: "except_RunPodError (resume_pod_reply w (awaits ?s1) (pod_id old_pod) (gpu_count old_pod)) = None"
    using Cons.prems(2) [of "awaits ?s1"] by (simp add: except_RunPodError_None)
  have "fst (rollback_pairs w pairs ?s2) = None"
    using Cons.prems by (intro Cons.IH) simp_all
  then show ?case
    using t r by (simp add: pr terminate_pod_def resume_pod_def)
qed

lemma rollback_and_break_Stop:
  "rollback_pairs w pairs st = (None, sr) \<Longrightarrow>
     rollback_and_break w pairs r stat err st = Stop (r\<lparr>status := status_value stat, error := err\<rparr>) sr"
  by (simp add: rollback_and_break_def rollback_deploy_def)

lemma deploy_steps_target:
  assumes "deploy_steps w a did ps pairs r st = Next prs rk sk"
  shows "deploy_steps w a did (ps @ p # qs) pairs r st =
     (case deploy_one w a did p prs rk sk of
        Next pairs1 r1 st1 \<Rightarrow> deploy_steps w a did qs pairs1 r1 st1
      | Stop r1 st1 \<Rightarrow> Stop r1 st1
      | Throw e pairs1 r1 st1 \<Rightarrow> Throw e pairs1 r1 st1)"
  using assms by (simp add: deploy_steps_append)

lemma rolling_deploy_Stop:
  assumes "deploy_steps w a (uuid_hex8 w (awaits st)) (target_pods a) []
             (deploy_record w a st) (deploy_start w a st) = Stop r sr"
  shows "\<exists>r' s'. rolling_deploy w a st = (Inr r', s') \<and> status r' = status r \<and> error r' = error r
           \<and> pod_ids r' = pod_ids r \<and> trace s' = trace sr"
  using assms by (simp add: rolling_deploy_def deploy_finish_def Let_def)

lemma deploy_record_pod_ids: "pod_ids (deploy_record w a st) = []"
  by (simp add: deploy_record_def new_record_def)

lemma drain_awaits: "awaits st \<le> awaits (drain w a old_pod new_pod st)"
  using grace_loop_awaits
    [of "emit (on_state_change a) (StateChange (pod_id old_pod) ''DRAINING'' (pod_id new_pod)) st"
        w "on_countdown a" "grace_period_minutes a * 60"]
  by (simp add: drain_def)

lemma health_check_awaits: "health_check w a old_pod new_pod st = (x, st') \<Longrightarrow> awaits st \<le> awaits st'"
  by (auto simp: health_check_def wait_for_healthy_def dest: wait_loop_awaits)

lemma create_replacement_awaits:
  "create_replacement w a did old_pod st = (x, st') \<Longrightarrow> awaits st \<le> awaits st'"
  by (auto simp: create_replacement_def create_pod_def)


section \<open>Health check\<close>

text \<open>
  The poll loop of \<open>_wait_for_healthy\<close>: with the cancellation flag set it returns
  \<open>False\<close> without polling; it returns \<open>True\<close> only after a poll that found the pod with
  desired status \<open>RUNNING\<close> and a positive uptime; and what it does is a poll and a sleep
  of 5 seconds, round after round, every poll at an elapsed time below the timeout.
\<close>

lemma wait_loop_cancelled:
  "deploy_cancelled st \<Longrightarrow> wait_loop w pid timeout elapsed st = (Inr False, st)"
  by (simp add: wait_loop.simps [of w pid timeout elapsed st])

lemma wait_loop_healthy:
  "wait_loop w pid timeout elapsed st = (Inr True, st') \<Longrightarrow>
     \<exists>pod r. get_pod_reply w (awaits st' - 1) pid = Inr pod \<and> desired_status pod = ''RUNNING''
       \<and> runtime pod = Some r \<and> uptime_seconds r > 0"
proof (induction "nat (timeout - elapsed)" arbitrary: elapsed st rule: less_induct)
  case less
  have IH: "\<And>s. elapsed < timeout \<Longrightarrow> wait_loop w pid timeout (elapsed + 5) s = (Inr True, st')
     \<Longrightarrow> \<exists>pod r. get_pod_reply w (awaits st' - 1) pid = Inr pod \<and> desired_status pod = ''RUNNING''
       \<and> runtime pod = Some r \<and> uptime_seconds r > 0"
    using less.hyps [of "elapsed + 5"] by simp
  from less.prems show ?case
    by (subst (asm) wait_loop.simps)
       (auto simp: get_pod_def sleep_def is_healthy_def
             split: if_splits sum.splits exn.splits option.splits dest!: IH)
qed

lemma polls_Suc: "polls pid (Suc n) = GetPod pid # Sleep 5 # polls pid n"
  by (simp add: polls_def)

lemma wait_loop_polls:
  "wait_loop w pid timeout elapsed st = (x, st') \<Longrightarrow>
     \<exists>n. trace st' = trace st @ polls pid n @ (if x = Inr False then [] else [GetPod pid])
       \<and> (n = 0 \<or> elapsed + 5 * int n < timeout + 5)
       \<and> (x \<noteq> Inr False \<longrightarrow> elapsed + 5 * int n < timeout)"
proof (induction "nat (timeout - elapsed)" arbitrary: elapsed st rule: less_induct)
  case less
  note unfold = wait_loop.simps [of w pid timeout elapsed st]
  let ?s1 = "suspend w (GetPod pid) st"
  show ?case
  proof (cases "elapsed < timeout \<and> \<not> deploy_cancelled st")
    case False
    then have "x = Inr False" "st' = st"
      using less.prems by (auto simp: unfold split: if_splits)
    then show ?thesis
      by (intro exI [of _ 0]) (simp add: polls_def)
  next
    case True
    show ?thesis
    proof (cases "(\<exists>pod. get_pod_reply w (awaits st) pid = Inr pod \<and> is_healthy pod)
                  \<or> (\<exists>m. get_pod_reply w (awaits st) pid = Inl (OtherException m))")
      case True
      then have "x \<noteq> Inr False" "st' = ?s1"
        using less.prems \<open>elapsed < timeout \<and> \<not> deploy_cancelled st\<close>
        by (auto simp: unfold get_pod_def)
      then show ?thesis
        using \<open>elapsed < timeout \<and> \<not> deploy_cancelled st\<close>
        by (intro exI [of _ 0]) (simp add: polls_def)
    next
      case False
      then have "wait_loop w pid timeout (elapsed + 5) (sleep w 5 ?s1) = (x, st')"
        using less.prems True
        by (auto simp: unfold get_pod_def split: sum.splits exn.splits)
      from less.hyps [OF _ this] True obtain n where
        n: "trace st' = trace (sleep w 5 ?s1) @ polls pid n @ (if x = Inr False then [] else [GetPod pid])"
          "n = 0 \<or> elapsed + 5 + 5 * int n < timeout + 5"
          "x \<noteq> Inr False \<longrightarrow> elapsed + 5 + 5 * int n < timeout"
        by auto
      show ?thesis
        using n True by (intro exI [of _ "Suc n"]) (auto simp: polls_Suc sleep_def)
    qed
  qed
qed


text \<open>
  The failed health check of the replacement of a target \<open>p\<close>, reached after the targets
  \<open>ps\<close>, when the terminations and resumptions raise nothing but a \<open>RunPodError\<close>: the
  replacement is terminated, the pairs completed before are rolled back, the status is
  \<open>failed\<close> and the record lists no pod. After the health check the old pod \<open>p\<close> is named
  in no call.
\<close>

lemma rolling_deploy_health_check_failed:
  assumes targets: "target_pods a = ps @ p # qs"
    and before: "deploy_steps w a (uuid_hex8 w (awaits st)) ps []
                   (deploy_record w a st) (deploy_start w a st) = Next prs rk sk"
    and terminate: "\<And>t pid m. awaits sk \<le> t \<Longrightarrow> terminate_pod_reply w t pid \<noteq> Some (OtherException m)"
    and resume: "\<And>t pid n m. awaits sk \<le> t \<Longrightarrow> resume_pod_reply w t pid n \<noteq> Some (OtherException m)"
    and running: "\<not> deploy_cancelled sk"
    and created: "create_replacement w a (uuid_hex8 w (awaits st)) p sk = (Inr new_pod, sc)"
    and unhealthy: "health_check w a p new_pod sc = (Inr False, sh)"
  shows "\<exists>r s'. rolling_deploy w a st = (Inr r, s')
           \<and> status r = status_value FAILED
           \<and> error r = ''New pod '' @ pod_id new_pod @ '' failed health check''
           \<and> pod_ids r = []
           \<and> trace s' = trace sh @
                (if on_state_change a then [StateChange (pod_id p) ''ROLLING_BACK'' (pod_id new_pod)]
                 else []) @
                TerminatePod (pod_id new_pod) # rollback_calls prs"
proof -
  let ?did = "uuid_hex8 w (awaits st)"
  let ?se = "emit (on_state_change a) (StateChange (pod_id p) ''ROLLING_BACK'' (pod_id new_pod)) sh"
  let ?st = "suspend w (TerminatePod (pod_id new_pod)) ?se"
  let ?err = "''New pod '' @ pod_id new_pod @ '' failed health check''"
  from deploy_steps_Next [OF before] have rk: "rk = deploy_record w a st"
    by simp
  have le: "awaits sk \<le> awaits ?se"
    using create_replacement_awaits [OF created] health_check_awaits [OF unhealthy] by simp
  have t: "except_RunPodError (terminate_pod_reply w (awaits ?se) (pod_id new_pod)) = None"
    using terminate [OF le] by (simp add: except_RunPodError_None)
  obtain x sr where rb: "rollback_pairs w prs ?st = (x, sr)"
    by (cases "rollback_pairs w prs ?st")
  have "fst (rollback_pairs w prs ?st) = None"
    using le terminate resume by (intro rollback_pairs_best_effort) simp_all
  with rb have x: "x = None"
    by simp
  have "deploy_one w a ?did p prs rk sk = Stop (rk\<lparr>status := status_value FAILED, error := ?err\<rparr>) sr"
    using running created unhealthy t rb x
    by (simp add: deploy_one_def terminate_and_abort_def terminate_pod_def rollback_and_break_Stop)
  then have "deploy_steps w a ?did (target_pods a) [] (deploy_record w a st) (deploy_start w a st) =
      Stop (rk\<lparr>status := status_value FAILED, error := ?err\<rparr>) sr"
    unfolding targets by (simp add: deploy_steps_target [OF before])
  from rolling_deploy_Stop [OF this] rollback_pairs_trace [of w prs ?st sr] rb x
  show ?thesis
    by (auto simp: rk deploy_record_pod_ids emit_def)
qed


text \<open>In \<open>unhealthy_world\<close>, one target and a timeout of 10 seconds: two polls, then the abort.\<close>

lemma rolling_deploy_health_check_timeout_example:
  "map_sum id status
        (fst (rolling_deploy unhealthy_world (example_deploy [example_pod ''p1'']) example_state)) =
      Inr ''failed''
   \<and> trace (snd (rolling_deploy unhealthy_world (example_deploy [example_pod ''p1'']) example_state)) =
      [CreatePod (replacement_request (example_deploy [example_pod ''p1'']) ''0a1b2c3d'' (example_pod ''p1'')),
       GetPod ''worker-p1-v2-0a1b2c3d'', Sleep 5, GetPod ''worker-p1-v2-0a1b2c3d'', Sleep 5,
       TerminatePod ''worker-p1-v2-0a1b2c3d'']"
  by (rule conjI; code_simp)


text \<open>
  Claim C1 at a termination that raises an exception other than \<open>RunPodError\<close>. The
  health check of the replacement times out after its two polls and the replacement's
  termination is attempted; the old pod is in no call. The handler around the loop sets
  the status \<open>failed\<close> and then calls \<open>_rollback_deploy\<close>, whose first statement sets it to
  \<open>rolling_back\<close>: the record that is returned and journalled has the status
  \<open>rolling_back\<close>, not \<open>failed\<close>.
\<close>

theorem rolling_deploy_health_check_timeout_status:
  "fst (wait_for_healthy gateway_error_world ''worker-p1-v2-0a1b2c3d'' 10 example_state) = Inr False
   \<and> map_sum id status
        (fst (rolling_deploy gateway_error_world (example_deploy [example_pod ''p1'']) example_state)) =
      Inr ''rolling_back''
   \<and> map_sum id error
        (fst (rolling_deploy gateway_error_world (example_deploy [example_pod ''p1'']) example_state)) =
      Inr ''502 Bad Gateway''
   \<and> trace (snd (rolling_deploy gateway_error_world (example_deploy [example_pod ''p1'']) example_state)) =
      [CreatePod (replacement_request (example_deploy [example_pod ''p1'']) ''0a1b2c3d'' (example_pod ''p1'')),
       GetPod ''worker-p1-v2-0a1b2c3d'', Sleep 5, GetPod ''worker-p1-v2-0a1b2c3d'', Sleep 5,
       TerminatePod ''worker-p1-v2-0a1b2c3d'']
   \<and> ''rolling_back'' \<noteq> status_value FAILED"
proof (intro conjI)
  show "fst (wait_for_healthy gateway_error_world ''worker-p1-v2-0a1b2c3d'' 10 example_state) = Inr False"
    by code_simp
  show "map_sum id status
        (fst (rolling_deploy gateway_error_world (example_deploy [example_pod ''p1'']) example_state)) =
      Inr ''rolling_back''"
    by code_simp
  show "map_sum id error
        (fst (rolling_deploy gateway_error_world (example_deploy [example_pod ''p1'']) example_state)) =
      Inr ''502 Bad Gateway''"
    by code_simp
  show "trace (snd (rolling_deploy gateway_error_world (example_deploy [example_pod ''p1'']) example_state)) =
      [CreatePod (replacement_request (example_deploy [example_pod ''p1'']) ''0a1b2c3d'' (example_pod ''p1'')),
       GetPod ''worker-p1-v2-0a1b2c3d'', Sleep 5, GetPod ''worker-p1-v2-0a1b2c3d'', Sleep 5,
       TerminatePod ''worker-p1-v2-0a1b2c3d'']"
    by code_simp
  show "''rolling_back'' \<noteq> status_value FAILED"
    by simp
qed


section \<open>Cancellation of a rolling deploy\<close>

text \<open>
  Claim C2, as amended. Let the targets be \<open>ps\<close>, then \<open>p\<close>, then \<open>qs\<close>, let the loop have
  completed the pairs \<open>prs\<close> of the targets \<open>ps\<close> and reached \<open>p\<close> in state \<open>sk\<close>, and let no
  termination or resumption from then on raise anything but a \<open>RunPodError\<close>. If the
  cancellation flag is set at the top of the iteration for \<open>p\<close>, the pairs \<open>prs\<close> are rolled
  back (new pod terminated, old pod resumed with its GPU count, pair after pair), these
  are the only events after \<open>sk\<close>, and the status is \<open>rolled_back\<close> with the note
  \<open>Cancelled by user\<close>. If the replacement of \<open>p\<close> was created and found healthy and the
  flag is set when the grace period ends, the replacement is terminated, then the pairs
  \<open>prs\<close> are rolled back, these are the only events after the grace period, and the status
  is \<open>rolled_back\<close> with the note \<open>Cancelled by user during grace period\<close>. In both cases
  the loop ends at \<open>p\<close>: no iteration runs for a target of \<open>qs\<close>, and the record lists no pod.
\<close>

theorem rolling_deploy_cancelled:
  assumes targets: "target_pods a = ps @ p # qs"
    and before: "deploy_steps w a (uuid_hex8 w (awaits st)) ps []
                   (deploy_record w a st) (deploy_start w a st) = Next prs rk sk"
    and terminate: "\<And>t pid m. awaits sk \<le> t \<Longrightarrow> terminate_pod_reply w t pid \<noteq> Some (OtherException m)"
    and resume: "\<And>t pid n m. awaits sk \<le> t \<Longrightarrow> resume_pod_reply w t pid n \<noteq> Some (OtherException m)"
  shows "map fst prs = ps
    \<and> (deploy_cancelled sk \<longrightarrow>
         (\<exists>r s'. rolling_deploy w a st = (Inr r, s')
            \<and> status r = status_value ROLLED_BACK \<and> error r = ''Cancelled by user'' \<and> pod_ids r = []
            \<and> trace s' = trace sk @ rollback_calls prs))
    \<and> (\<not> deploy_cancelled sk
         \<and> create_replacement w a (uuid_hex8 w (awaits st)) p sk = (Inr new_pod, sc)
         \<and> health_check w a p new_pod sc = (Inr True, sh)
         \<and> deploy_cancelled (drain w a p new_pod sh) \<longrightarrow>
         (\<exists>r s'. rolling_deploy w a st = (Inr r, s')
            \<and> status r = status_value ROLLED_BACK
            \<and> error r = ''Cancelled by user during grace period'' \<and> pod_ids r = []
            \<and> trace s' = trace (drain w a p new_pod sh) @
                           TerminatePod (pod_id new_pod) # rollback_calls prs))"
proof (intro conjI impI)
  let ?did = "uuid_hex8 w (awaits st)"
  from deploy_steps_Next [OF before] have rk: "rk = deploy_record w a st" and prs: "map fst prs = ps"
    by simp_all
  show "map fst prs = ps"
    by (rule prs)
  have steps: "deploy_steps w a ?did (target_pods a) [] (deploy_record w a st) (deploy_start w a st) =
     (case deploy_one w a ?did p prs rk sk of
        Next pairs1 r1 st1 \<Rightarrow> deploy_steps w a ?did qs pairs1 r1 st1
      | Stop r1 st1 \<Rightarrow> Stop r1 st1
      | Throw e pairs1 r1 st1 \<Rightarrow> Throw e pairs1 r1 st1)"
    unfolding targets by (rule deploy_steps_target [OF before])
  {
    assume c: "deploy_cancelled sk"
    obtain x sr where rb: "rollback_pairs w prs sk = (x, sr)"
      by (cases "rollback_pairs w prs sk")
    from rollback_pairs_best_effort [of sk w prs] terminate resume rb have x: "x = None"
      by simp
    have "deploy_one w a ?did p prs rk sk =
        Stop (rk\<lparr>status := status_value ROLLED_BACK, error := ''Cancelled by user''\<rparr>) sr"
      using c rb x by (simp add: deploy_one_def rollback_and_break_Stop)
    with steps have "deploy_steps w a ?did (target_pods a) [] (deploy_record w a st) (deploy_start w a st) =
        Stop (rk\<lparr>status := status_value ROLLED_BACK, error := ''Cancelled by user''\<rparr>) sr"
      by simp
    from rolling_deploy_Stop [OF this] rollback_pairs_trace [of w prs sk sr] rb x
    show "\<exists>r s'. rolling_deploy w a st = (Inr r, s')
            \<and> status r = status_value ROLLED_BACK \<and> error r = ''Cancelled by user'' \<and> pod_ids r = []
            \<and> trace s' = trace sk @ rollback_calls prs"
      by (auto simp: rk deploy_record_pod_ids)
  }
  {
    assume h: "\<not> deploy_cancelled sk
         \<and> create_replacement w a (uuid_hex8 w (awaits st)) p sk = (Inr new_pod, sc)
         \<and> health_check w a p new_pod sc = (Inr True, sh)
         \<and> deploy_cancelled (drain w a p new_pod sh)"
    let ?sd = "drain w a p new_pod sh"
    let ?st = "suspend w (TerminatePod (pod_id new_pod)) ?sd"
    have le: "awaits sk \<le> awaits ?sd"
      using h create_replacement_awaits [of w a ?did p sk "Inr new_pod" sc]
        health_check_awaits [of w a p new_pod sc "Inr True" sh] drain_awaits [of sh w a p new_pod]
      by simp
    have t: "except_RunPodError (terminate_pod_reply w (awaits ?sd) (pod_id new_pod)) = None"
      using terminate [OF le] by (simp add: except_RunPodError_None)
    obtain x sr where rb: "rollback_pairs w prs ?st = (x, sr)"
      by (cases "rollback_pairs w prs ?st")
    have "fst (rollback_pairs w prs ?st) = None"
      using le terminate resume by (intro rollback_pairs_best_effort) simp_all
    with rb have x: "x = None"
      by simp
    have "deploy_one w a ?did p prs rk sk =
        Stop (rk\<lparr>status := status_value ROLLED_BACK,
                 error := ''Cancelled by user during grace period''\<rparr>) sr"
      using h t rb x
      by (simp add: deploy_one_def terminate_and_abort_def terminate_pod_def rollback_and_break_Stop)
    with steps have "deploy_steps w a ?did (target_pods a) [] (deploy_record w a st) (deploy_start w a st) =
        Stop (rk\<lparr>status := status_value ROLLED_BACK,
                 error := ''Cancelled by user during grace period''\<rparr>) sr"
      by simp
    from rolling_deploy_Stop [OF this] rollback_pairs_trace [of w prs ?st sr] rb x
    show "\<exists>r s'. rolling_deploy w a st = (Inr r, s')
            \<and> status r = status_value ROLLED_BACK
            \<and> error r = ''Cancelled by user during grace period'' \<and> pod_ids r = []
            \<and> trace s' = trace (drain w a p new_pod sh) @
                           TerminatePod (pod_id new_pod) # rollback_calls prs"
      by (auto simp: rk deploy_record_pod_ids)
  }
qed


text \<open>
  Three targets, a grace period of one minute. In \<open>cancel_at_top_world\<close> the flag is found
  set at the top of the second iteration; in \<open>cancel_in_grace_world\<close> the user cancels
  during the grace period of the second target. The client calls of the whole run are
  listed: none of them names the third target, and the second old pod is never
  terminated.
\<close>

theorem rolling_deploy_cancelled_witness:
  "(\<exists>r s'. rolling_deploy cancel_at_top_world (example_deploy three_pods) example_state = (Inr r, s')
      \<and> status r = ''rolled_back'' \<and> error r = ''Cancelled by user'' \<and> pod_ids r = []
      \<and> client_calls (trace s') =
          [CreatePod (replacement_request (example_deploy three_pods) ''0a1b2c3d'' (example_pod ''p1'')),
           GetPod ''worker-p1-v2-0a1b2c3d'', TerminatePod ''p1'',
           TerminatePod ''worker-p1-v2-0a1b2c3d'', ResumePod ''p1'' 1])
   \<and> (\<exists>r s'. rolling_deploy cancel_in_grace_world (example_deploy three_pods) example_state = (Inr r, s')
      \<and> status r = ''rolled_back'' \<and> error r = ''Cancelled by user during grace period''
      \<and> pod_ids r = []
      \<and> client_calls (trace s') =
          [CreatePod (replacement_request (example_deploy three_pods) ''0a1b2c3d'' (example_pod ''p1'')),
           GetPod ''worker-p1-v2-0a1b2c3d'', TerminatePod ''p1'',
           CreatePod (replacement_request (example_deploy three_pods) ''0a1b2c3d'' (example_pod ''p2'')),
           GetPod ''worker-p2-v2-0a1b2c3d'', TerminatePod ''worker-p2-v2-0a1b2c3d'',
           TerminatePod ''worker-p1-v2-0a1b2c3d'', ResumePod ''p1'' 1])"
proof (rule conjI)
  let ?a = "example_deploy three_pods"
  let ?new = "example_pod ''worker-p2-v2-0a1b2c3d''"
  have targets: "target_pods ?a = [example_pod ''p1''] @ example_pod ''p2'' # [example_pod ''p3'']"
    by (simp add: example_deploy_def three_pods_def)
  have rolled_back: "status_value ROLLED_BACK = ''rolled_back''"
    by simp
  {
    let ?w = cancel_at_top_world
    have "is_Next (before_second ?w)"
      by code_simp
    then have before: "deploy_steps ?w ?a (uuid_hex8 ?w (awaits example_state)) [example_pod ''p1''] []
        (deploy_record ?w ?a example_state) (deploy_start ?w ?a example_state) =
        Next (next_pairs (before_second ?w)) (next_record (before_second ?w))
          (next_state (before_second ?w))"
      by (simp add: before_second_def)
    have terminate: "\<And>t pid m. terminate_pod_reply ?w t pid \<noteq> Some (OtherException m)"
      and resume: "\<And>t pid n m. resume_pod_reply ?w t pid n \<noteq> Some (OtherException m)"
      by (simp_all add: cancel_at_top_world_def example_world_def)
    have cancelled: "deploy_cancelled (next_state (before_second ?w))"
      by code_simp
    have calls: "client_calls (trace (next_state (before_second ?w)) @
         rollback_calls (next_pairs (before_second ?w))) =
       [CreatePod (replacement_request ?a ''0a1b2c3d'' (example_pod ''p1'')),
        GetPod ''worker-p1-v2-0a1b2c3d'', TerminatePod ''p1'',
        TerminatePod ''worker-p1-v2-0a1b2c3d'', ResumePod ''p1'' 1]"
      by code_simp
    from rolling_deploy_cancelled [OF targets before terminate resume, THEN conjunct2, THEN conjunct1,
        rule_format, OF cancelled]
    obtain r s' where "rolling_deploy ?w ?a example_state = (Inr r, s')"
      "status r = status_value ROLLED_BACK" "error r = ''Cancelled by user''" "pod_ids r = []"
      "trace s' = trace (next_state (before_second ?w)) @ rollback_calls (next_pairs (before_second ?w))"
      by blast
    then show "\<exists>r s'. rolling_deploy ?w ?a example_state = (Inr r, s')
      \<and> status r = ''rolled_back'' \<and> error r = ''Cancelled by user'' \<and> pod_ids r = []
      \<and> client_calls (trace s') =
          [CreatePod (replacement_request ?a ''0a1b2c3d'' (example_pod ''p1'')),
           GetPod ''worker-p1-v2-0a1b2c3d'', TerminatePod ''p1'',
           TerminatePod ''worker-p1-v2-0a1b2c3d'', ResumePod ''p1'' 1]"
      using calls rolled_back by (intro exI [of _ r] exI [of _ s']) (simp only: simp_thms)
  }
  {
    let ?w = cancel_in_grace_world
    have "is_Next (before_second ?w)"
      by code_simp
    then have before: "deploy_steps ?w ?a (uuid_hex8 ?w (awaits example_state)) [example_pod ''p1''] []
        (deploy_record ?w ?a example_state) (deploy_start ?w ?a example_state) =
        Next (next_pairs (before_second ?w)) (next_record (before_second ?w))
          (next_state (before_second ?w))"
      by (simp add: before_second_def)
    have terminate: "\<And>t pid m. terminate_pod_reply ?w t pid \<noteq> Some (OtherException m)"
      and resume: "\<And>t pid n m. resume_pod_reply ?w t pid n \<noteq> Some (OtherException m)"
      by (simp_all add: cancel_in_grace_world_def example_world_def)
    have running: "\<not> deploy_cancelled (next_state (before_second ?w))"
      by code_simp
    have "fst (second_created ?w) = Inr ?new"
      by code_simp
    then have created: "create_replacement ?w ?a (uuid_hex8 ?w (awaits example_state))
        (example_pod ''p2'') (next_state (before_second ?w)) = (Inr ?new, snd (second_created ?w))"
      by (simp add: second_created_def prod_eq_iff)
    have "fst (second_checked ?w) = Inr True"
      by code_simp
    then have checked: "health_check ?w ?a (example_pod ''p2'') ?new (snd (second_created ?w)) =
        (Inr True, snd (second_checked ?w))"
      by (simp add: second_checked_def prod_eq_iff)
    have "deploy_cancelled (second_drained ?w)"
      by code_simp
    then have cancelled: "deploy_cancelled (drain ?w ?a (example_pod ''p2'') ?new (snd (second_checked ?w)))"
      by (simp add: second_drained_def)
    have calls: "client_calls (trace (second_drained ?w) @
         TerminatePod (pod_id ?new) # rollback_calls (next_pairs (before_second ?w))) =
       [CreatePod (replacement_request ?a ''0a1b2c3d'' (example_pod ''p1'')),
        GetPod ''worker-p1-v2-0a1b2c3d'', TerminatePod ''p1'',
        CreatePod (replacement_request ?a ''0a1b2c3d'' (example_pod ''p2'')),
        GetPod ''worker-p2-v2-0a1b2c3d'', TerminatePod ''worker-p2-v2-0a1b2c3d'',
        TerminatePod ''worker-p1-v2-0a1b2c3d'', ResumePod ''p1'' 1]"
      by code_simp
    from rolling_deploy_cancelled [OF targets before terminate resume, THEN conjunct2, THEN conjunct2,
        rule_format, OF conjI [OF running conjI [OF created conjI [OF checked cancelled]]]]
    obtain r s' where "rolling_deploy ?w ?a example_state = (Inr r, s')"
      "status r = status_value ROLLED_BACK" "error r = ''Cancelled by user during grace period''"
      "pod_ids r = []"
      "trace s' = trace (second_drained ?w) @
         TerminatePod (pod_id ?new) # rollback_calls (next_pairs (before_second ?w))"
      unfolding second_drained_def by blast
    then show "\<exists>r s'. rolling_deploy ?w ?a example_state = (Inr r, s')
      \<and> status r = ''rolled_back'' \<and> error r = ''Cancelled by user during grace period''
      \<and> pod_ids r = []
      \<and> client_calls (trace s') =
          [CreatePod (replacement_request ?a ''0a1b2c3d'' (example_pod ''p1'')),
           GetPod ''worker-p1-v2-0a1b2c3d'', TerminatePod ''p1'',
           CreatePod (replacement_request ?a ''0a1b2c3d'' (example_pod ''p2'')),
           GetPod ''worker-p2-v2-0a1b2c3d'', TerminatePod ''worker-p2-v2-0a1b2c3d'',
           TerminatePod ''worker-p1-v2-0a1b2c3d'', ResumePod ''p1'' 1]"
      using calls rolled_back by (intro exI [of _ r] exI [of _ s']) (simp only: simp_thms)
  }
qed


text \<open>
  Claim C2 as stated fails: in \<open>cancel_gateway_error_world\<close> the user cancels during the
  grace period of the second of three targets, and the termination of the replacement
  raises an exception that is not a \<open>RunPodError\<close>. The exception reaches the handler
  around the loop, and the status of the returned record is not \<open>rolled_back\<close>.
\<close>

theorem rolling_deploy_cancelled_counterexample:
  "target_pods (example_deploy three_pods) =
     [example_pod ''p1''] @ example_pod ''p2'' # [example_pod ''p3'']
   \<and> is_Next (before_second cancel_gateway_error_world)
   \<and> \<not> deploy_cancelled (next_state (before_second cancel_gateway_error_world))
   \<and> fst (second_created cancel_gateway_error_world) = Inr (example_pod ''worker-p2-v2-0a1b2c3d'')
   \<and> fst (second_checked cancel_gateway_error_world) = Inr True
   \<and> \<not> deploy_cancelled (snd (second_checked cancel_gateway_error_world))
   \<and> deploy_cancelled (second_drained cancel_gateway_error_world)
   \<and> map_sum id status
        (fst (rolling_deploy cancel_gateway_error_world (example_deploy three_pods) example_state)) =
      Inr ''rolling_back''
   \<and> map_sum id error
        (fst (rolling_deploy cancel_gateway_error_world (example_deploy three_pods) example_state)) =
      Inr ''502 Bad Gateway''
   \<and> ''rolling_back'' \<noteq> status_value ROLLED_BACK"
proof (intro conjI)
  show "target_pods (example_deploy three_pods) =
     [example_pod ''p1''] @ example_pod ''p2'' # [example_pod ''p3'']"
    by (simp add: example_deploy_def three_pods_def)
  show "is_Next (before_second cancel_gateway_error_world)"
    by code_simp
  show "\<not> deploy_cancelled (next_state (before_second cancel_gateway_error_world))"
    by code_simp
  show "fst (second_created cancel_gateway_error_world) = Inr (example_pod ''worker-p2-v2-0a1b2c3d'')"
    by code_simp
  show "fst (second_checked cancel_gateway_error_world) = Inr True"
    by code_simp
  show "\<not> deploy_cancelled (snd (second_checked cancel_gateway_error_world))"
    by code_simp
  show "deploy_cancelled (second_drained cancel_gateway_error_world)"
    by code_simp
  show "map_sum id status
        (fst (rolling_deploy cancel_gateway_error_world (example_deploy three_pods) example_state)) =
      Inr ''rolling_back''"
    by code_simp
  show "map_sum id error
        (fst (rolling_deploy cancel_gateway_error_world (example_deploy three_pods) example_state)) =
      Inr ''502 Bad Gateway''"
    by code_simp
  show "''rolling_back'' \<noteq> status_value ROLLED_BACK"
    by simp
qed

end
